theory Spec2Isabelle
  imports Main "HOL-Library.Sublist" "HOL-Library.Multiset"
begin

section \<open>Text\<close>

text \<open>
  Python \<open>str\<close> values are modelled as HOL strings, one \<open>char\<close> per character
  (code points below 256).  The operations below are the ones the scraper calls:
  \<open>str.lower\<close>, \<open>str.strip\<close>, \<open>str.startswith\<close>, the \<open>in\<close> test on strings,
  and the regular expression \<open>\d+\<close> followed by \<open>int\<close>.
\<close>

type_synonym timestamp = int

definition lower_char :: "char \<Rightarrow> char" where
  "lower_char c =
     (let n = (of_char c :: nat) in
      if (65 \<le> n \<and> n \<le> 90) \<or> (192 \<le> n \<and> n \<le> 222 \<and> n \<noteq> 215)
      then char_of (n + 32) else c)"

definition lower :: "string \<Rightarrow> string" where
  "lower s = map lower_char s"

definition isspace :: "char \<Rightarrow> bool" where
  "isspace c =
     (let n = (of_char c :: nat) in
      (9 \<le> n \<and> n \<le> 13) \<or> (28 \<le> n \<and> n \<le> 32) \<or> n = 133 \<or> n = 160)"

definition strip :: "string \<Rightarrow> string" where
  "strip s = rev (dropWhile isspace (rev (dropWhile isspace s)))"

definition startswith :: "string \<Rightarrow> string \<Rightarrow> bool" where
  "startswith s p = prefix p s"

fun contains :: "string \<Rightarrow> string \<Rightarrow> bool" where
  "contains kw [] = (kw = [])"
| "contains kw (c # cs) = (prefix kw (c # cs) \<or> contains kw cs)"

definition isdigit :: "char \<Rightarrow> bool" where
  "isdigit c = (48 \<le> (of_char c :: nat) \<and> (of_char c :: nat) \<le> 57)"

text \<open>\<open>re.findall(r'\d+', text)\<close>: the maximal runs of digits, left to right.\<close>

fun digit_runs :: "string \<Rightarrow> string \<Rightarrow> string list" where
  "digit_runs cur [] = (if cur = [] then [] else [cur])"
| "digit_runs cur (c # cs) =
     (if isdigit c then digit_runs (cur @ [c]) cs
      else (if cur = [] then [] else [cur]) @ digit_runs [] cs)"

definition findall_digits :: "string \<Rightarrow> string list" where
  "findall_digits s = digit_runs [] s"

definition int_of_digits :: "string \<Rightarrow> int" where
  "int_of_digits ds = foldl (\<lambda>a c. 10 * a + (int (of_char c) - 48)) 0 ds"

text \<open>\<open>_extract_number\<close> (scraper.py, lines 205-209).\<close>

definition extract_number :: "string \<Rightarrow> int" where
  "extract_number text =
     (case findall_digits text of [] \<Rightarrow> 0 | n # _ \<Rightarrow> int_of_digits n)"

section \<open>The parsed document\<close>

text \<open>
  The extractor works on the tree that BeautifulSoup builds, not on the markup text, so
  the model starts from that tree.  A tag carries its name, its attribute dictionary and
  its children; the \<open>class\<close> attribute is the list of its tokens, every other attribute
  is one string.  The document object itself is a tag named \<open>[document]\<close>.
\<close>

datatype attr_value = AttrStr string | AttrList "string list"

datatype node =
    NavigableString string
  | Tag string "(string \<times> attr_value) list" "node list"

fun descendants :: "node \<Rightarrow> node list" where
  "descendants (NavigableString s) = []"
| "descendants (Tag n a cs) = concat (map (\<lambda>c. c # descendants c) cs)"

fun get_attr :: "node \<Rightarrow> string \<Rightarrow> attr_value option" where
  "get_attr (NavigableString s) k = None"
| "get_attr (Tag n a cs) k = map_of a k"

fun is_tag :: "string list \<Rightarrow> node \<Rightarrow> bool" where
  "is_tag nms (NavigableString s) = False"
| "is_tag nms (Tag n a cs) = (n \<in> set nms)"

definition join_space :: "string list \<Rightarrow> string" where
  "join_space toks = (case toks of [] \<Rightarrow> [] | t # ts \<Rightarrow> t @ concat (map (\<lambda>u. CHR '' '' # u) ts))"

text \<open>
  An attribute filter given as a function is applied to each token of a token list and,
  when none matches, to the tokens joined by single spaces; a missing attribute is
  passed as \<open>None\<close>, which every filter of the scraper rejects (\<open>x and ...\<close>).
\<close>

definition attr_matches :: "(string \<Rightarrow> bool) \<Rightarrow> attr_value option \<Rightarrow> bool" where
  "attr_matches f v =
     (case v of
        None \<Rightarrow> False
      | Some (AttrStr s) \<Rightarrow> f s
      | Some (AttrList toks) \<Rightarrow> list_ex f toks \<or> f (join_space toks))"

definition class_has :: "string list \<Rightarrow> node \<Rightarrow> bool" where
  "class_has kws nd =
     attr_matches (\<lambda>x. x \<noteq> [] \<and> list_ex (\<lambda>kw. contains kw (lower x)) kws) (get_attr nd ''class'')"

definition attr_is :: "string \<Rightarrow> string \<Rightarrow> node \<Rightarrow> bool" where
  "attr_is k v nd = attr_matches (\<lambda>x. x = v) (get_attr nd k)"

definition has_attr :: "string \<Rightarrow> node \<Rightarrow> bool" where
  "has_attr k nd = (get_attr nd k \<noteq> None)"

definition find_all :: "string list \<Rightarrow> (node \<Rightarrow> bool) \<Rightarrow> node \<Rightarrow> node list" where
  "find_all nms P elem = filter (\<lambda>nd. is_tag nms nd \<and> P nd) (descendants elem)"

definition find_first :: "string list \<Rightarrow> (node \<Rightarrow> bool) \<Rightarrow> node \<Rightarrow> node option" where
  "find_first nms P elem = (case find_all nms P elem of [] \<Rightarrow> None | nd # _ \<Rightarrow> Some nd)"

definition any_node :: "node \<Rightarrow> bool" where
  "any_node nd = True"

text \<open>Python's \<open>a or b\<close> on results that are \<open>None\<close> or a tag (a tag is always truthy).\<close>

definition orelse :: "'a option \<Rightarrow> 'a option \<Rightarrow> 'a option" where
  "orelse a b = (case a of None \<Rightarrow> b | Some x \<Rightarrow> Some x)"

text \<open>\<open>get_text(strip=True)\<close>: every string below the tag, stripped, the empty ones
  dropped, concatenated without separator.\<close>

fun strings_of :: "node list \<Rightarrow> string list" where
  "strings_of [] = []"
| "strings_of (NavigableString s # ns) = s # strings_of ns"
| "strings_of (Tag n a cs # ns) = strings_of ns"

definition get_text_strip :: "node \<Rightarrow> string" where
  "get_text_strip nd = concat (filter (\<lambda>s. s \<noteq> []) (map strip (strings_of (descendants nd))))"

definition string_attr :: "node \<Rightarrow> string \<Rightarrow> string" where
  "string_attr nd k =
     (case get_attr nd k of
        Some (AttrStr s) \<Rightarrow> s
      | Some (AttrList toks) \<Rightarrow> join_space toks
      | None \<Rightarrow> [])"

section \<open>Records (models.py)\<close>

datatype error =
    ValidationError
  | ValueError string
  | FetchError string
  | DatabaseError string

text \<open>\<open>str(e)\<close>.  The texts of pydantic's and of the drivers' own messages are not
  reproduced; an exception raised while fetching carries its text.\<close>

fun str_error :: "error \<Rightarrow> string" where
  "str_error ValidationError = ''validation error''"
| "str_error (ValueError m) = m"
| "str_error (FetchError m) = m"
| "str_error (DatabaseError m) = m"

record ProductData =
  name :: string
  tagline :: string
  description :: "string option"
  url :: "string option"
  votes :: "int option"
  comments :: "int option"
  maker :: "string option"
  category :: "string option"
  launch_date :: "timestamp option"
  image_url :: "string option"
  scraped_at :: timestamp
  source_url :: string

record ScrapingResult =
  success :: bool
  products :: "ProductData list"
  total_count :: nat
  page_url :: string
  result_scraped_at :: timestamp
  error_message :: "string option"

text \<open>
  Two library functions are parameters of the model: \<open>urllib.parse.urljoin\<close>, and
  pydantic's \<open>HttpUrl\<close> type, applied to the URL fields when a \<open>ProductData\<close> or a
  \<open>ScrapingResult\<close> is constructed.  \<open>http_url L u\<close> is \<open>None\<close> when the type rejects \<open>u\<close>
  and otherwise the value that the field then holds, which need not be \<open>u\<close> itself
  (the type strips white space and may rebuild the host).
\<close>

record library =
  http_url :: "string \<Rightarrow> string option"
  urljoin :: "string \<Rightarrow> string \<Rightarrow> string"

text \<open>An optional URL field: \<open>None\<close> is stored as it is, any other value goes through
  the type.  The result is \<open>None\<close> when the value is rejected.\<close>

definition optional_url :: "(string \<Rightarrow> string option) \<Rightarrow> string option \<Rightarrow> string option option" where
  "optional_url validate v =
     (case v of
        None \<Rightarrow> Some None
      | Some u \<Rightarrow> (case validate u of None \<Rightarrow> None | Some w \<Rightarrow> Some (Some w)))"

definition new_ProductData :: "library \<Rightarrow> ProductData \<Rightarrow> error + ProductData" where
  "new_ProductData L p =
     (case optional_url (http_url L) (url p) of
        None \<Rightarrow> Inl ValidationError
      | Some u \<Rightarrow>
          (case optional_url (http_url L) (image_url p) of
             None \<Rightarrow> Inl ValidationError
           | Some i \<Rightarrow>
               (case http_url L (source_url p) of
                  None \<Rightarrow> Inl ValidationError
                | Some s \<Rightarrow> Inr (p\<lparr>url := u, image_url := i, source_url := s\<rparr>))))"

definition new_ScrapingResult :: "library \<Rightarrow> ScrapingResult \<Rightarrow> error + ScrapingResult" where
  "new_ScrapingResult L r =
     (case http_url L (page_url r) of
        None \<Rightarrow> Inl ValidationError
      | Some u \<Rightarrow> Inr (r\<lparr>page_url := u\<rparr>))"

definition no_description :: string where
  "no_description = ''No description available''"

section \<open>Extraction (scraper.py)\<close>

text \<open>The link rule of lines 152-160, used for the product link and (lines 178-186)
  for the image.\<close>

definition resolve_link :: "library \<Rightarrow> string \<Rightarrow> string \<Rightarrow> string option" where
  "resolve_link L source href =
     (if startswith href ''http'' then Some href
      else if startswith href ''/'' then Some (urljoin L source href)
      else None)"

text \<open>\<open>_extract_product_data\<close> (lines 135-203).  \<open>now\<close> is the clock reading taken by
  the record's \<open>scraped_at\<close> default.  A validation error raised by the constructor is
  caught by the function's own handler, which returns \<open>None\<close>.\<close>

definition extract_product_data ::
  "library \<Rightarrow> timestamp \<Rightarrow> node \<Rightarrow> string \<Rightarrow> ProductData option" where
  "extract_product_data L now item_soup source =
     (let name_elem =
            orelse (find_first [''h3''] any_node item_soup)
           (orelse (find_first [''h2''] any_node item_soup)
           (orelse (find_first [''a''] (class_has [''name'']) item_soup)
                   (find_first [''div''] (class_has [''title'']) item_soup)));
          nm = (case name_elem of Some e \<Rightarrow> get_text_strip e | None \<Rightarrow> []);
          tagline_elem =
            orelse (find_first [''p''] any_node item_soup)
                   (find_first [''div''] (class_has [''tagline'', ''description'', ''subtitle''])
                      item_soup);
          tl = (case tagline_elem of Some e \<Rightarrow> get_text_strip e | None \<Rightarrow> []);
          link_elem = find_first [''a''] (has_attr ''href'') item_soup;
          u = (case link_elem of
                 Some e \<Rightarrow> resolve_link L source (string_attr e ''href'')
               | None \<Rightarrow> None);
          vote_elem =
            orelse (find_first [''span''] (class_has [''vote'']) item_soup)
                   (find_first [''div''] (class_has [''vote'']) item_soup);
          vs = (case vote_elem of Some e \<Rightarrow> extract_number (get_text_strip e) | None \<Rightarrow> 0);
          comment_elem = find_first [''span''] (class_has [''comment'']) item_soup;
          cm = (case comment_elem of Some e \<Rightarrow> extract_number (get_text_strip e) | None \<Rightarrow> 0);
          img_elem = find_first [''img''] any_node item_soup;
          img = (case img_elem of
                   Some e \<Rightarrow>
                     (if string_attr e ''src'' \<noteq> []
                      then resolve_link L source (string_attr e ''src'') else None)
                 | None \<Rightarrow> None)
      in if nm \<noteq> [] then
           (case new_ProductData L
                   \<lparr>name = nm,
                    tagline = (if tl \<noteq> [] then tl else no_description),
                    description = None, url = u, votes = Some vs, comments = Some cm,
                    maker = None, category = None, launch_date = None, image_url = img,
                    scraped_at = now, source_url = source\<rparr> of
              Inr p \<Rightarrow> Some p
            | Inl e \<Rightarrow> None)
         else None)"

text \<open>The container cascade of \<open>_parse_products\<close> (lines 113-120).\<close>

definition product_items :: "node \<Rightarrow> node list" where
  "product_items soup =
     (let items =
            (if find_all [''div''] (attr_is ''data-test'' ''product-item'') soup \<noteq> []
             then find_all [''div''] (attr_is ''data-test'' ''product-item'') soup
             else find_all [''div''] (class_has [''product'']) soup)
      in if items = [] then
           (if find_all [''article''] any_node soup \<noteq> []
            then find_all [''article''] any_node soup
            else find_all [''div''] (class_has [''card'', ''item'', ''post'']) soup)
         else items)"

text \<open>\<open>_parse_products\<close> (lines 109-133).  The clock reading of the container at index
  \<open>i\<close> is \<open>clock i\<close>.\<close>

definition parse_products ::
  "library \<Rightarrow> (nat \<Rightarrow> timestamp) \<Rightarrow> node \<Rightarrow> string \<Rightarrow> ProductData list" where
  "parse_products L clock soup source =
     concat (map (\<lambda>(i, item).
        (case extract_product_data L (clock i) item source of
           Some p \<Rightarrow> (if name p \<noteq> [] then [p] else [])
         | None \<Rightarrow> []))
       (enumerate 0 (product_items soup)))"

text \<open>
  The degraded strategy of \<open>RequestsScraper._parse_products_simple\<close> (lines 275-297).
  \<open>find_next\<close> looks at the elements that follow a heading in document order, which are
  the nodes after it in the list of the document's descendants.  Here the constructor's
  validation error is not caught inside the function.
\<close>

fun with_following :: "node list \<Rightarrow> (node \<times> node list) list" where
  "with_following [] = []"
| "with_following (nd # rest) = (nd, rest) # with_following rest"

definition find_next :: "string list \<Rightarrow> node list \<Rightarrow> node option" where
  "find_next nms following =
     (case filter (is_tag nms) following of [] \<Rightarrow> None | nd # _ \<Rightarrow> Some nd)"

definition titles :: "node \<Rightarrow> (node \<times> node list) list" where
  "titles soup =
     filter (\<lambda>(nd, following). is_tag [''h1'', ''h2'', ''h3'', ''h4''] nd)
       (with_following (descendants soup))"

definition simple_tagline :: "node list \<Rightarrow> string" where
  "simple_tagline following =
     (let description =
            (case find_next [''p'', ''div''] following of
               Some e \<Rightarrow> take 200 (get_text_strip e)
             | None \<Rightarrow> [])
      in if description \<noteq> [] then description else no_description)"

fun simple_loop ::
  "library \<Rightarrow> (nat \<Rightarrow> timestamp) \<Rightarrow> string \<Rightarrow> (nat \<times> node \<times> node list) list
     \<Rightarrow> error + ProductData list" where
  "simple_loop L clock source [] = Inr []"
| "simple_loop L clock source ((i, title, following) # ts) =
     (if length (get_text_strip title) > 5 then
        (case new_ProductData L
                \<lparr>name = get_text_strip title, tagline = simple_tagline following,
                 description = None, url = None, votes = None, comments = None,
                 maker = None, category = None, launch_date = None, image_url = None,
                 scraped_at = clock i, source_url = source\<rparr> of
           Inl e \<Rightarrow> Inl e
         | Inr p \<Rightarrow>
             (case simple_loop L clock source ts of
                Inl e \<Rightarrow> Inl e
              | Inr ps \<Rightarrow> Inr (p # ps)))
      else simple_loop L clock source ts)"

definition parse_products_simple ::
  "library \<Rightarrow> (nat \<Rightarrow> timestamp) \<Rightarrow> node \<Rightarrow> string \<Rightarrow> error + ProductData list" where
  "parse_products_simple L clock soup source =
     simple_loop L clock source (enumerate 0 (take 10 (titles soup)))"

section \<open>Fetching pages (scraper.py)\<close>

text \<open>
  \<open>ProductHuntScraper.scrape_page\<close> (lines 68-107).  \<open>fetched\<close> is what lines 74-82 give
  for this call: the parsed page, or the exception raised on the way.  Every exception of
  the \<open>try\<close> block, the constructor's validation error included, reaches the handler,
  which constructs the failed result; an exception raised by that construction leaves
  the function.  \<open>now\<close> is the clock reading stored in the result.
\<close>

definition scrape_page ::
  "library \<Rightarrow> error + node \<Rightarrow> (nat \<Rightarrow> timestamp) \<Rightarrow> timestamp \<Rightarrow> string
     \<Rightarrow> error + ScrapingResult" where
  "scrape_page L fetched clock now u =
     (case (case fetched of
              Inl e \<Rightarrow> Inl e
            | Inr soup \<Rightarrow>
                new_ScrapingResult L
                  \<lparr>success = True, products = parse_products L clock soup u,
                   total_count = length (parse_products L clock soup u), page_url = u,
                   result_scraped_at = now, error_message = None\<rparr>) of
        Inr r \<Rightarrow> Inr r
      | Inl e \<Rightarrow>
          new_ScrapingResult L
            \<lparr>success = False, products = [], total_count = 0, page_url = u,
             result_scraped_at = now, error_message = Some (str_error e)\<rparr>)"

text \<open>\<open>ProductHuntScraper.scrape_multiple_pages\<close> (lines 211-233).  \<open>fetch j u\<close> is the
  outcome of fetching \<open>u\<close> as the page at position \<open>j\<close>; \<open>item_clock j\<close> and \<open>page_clock j\<close>
  are the clock readings for that page.  The handler of the loop constructs a failed
  result too, and an exception raised there ends the loop.\<close>

fun scrape_multiple_pages ::
  "library \<Rightarrow> (nat \<Rightarrow> string \<Rightarrow> error + node) \<Rightarrow> (nat \<Rightarrow> nat \<Rightarrow> timestamp) \<Rightarrow> (nat \<Rightarrow> timestamp)
     \<Rightarrow> nat \<Rightarrow> string list \<Rightarrow> error + ScrapingResult list" where
  "scrape_multiple_pages L fetch item_clock page_clock j [] = Inr []"
| "scrape_multiple_pages L fetch item_clock page_clock j (u # us) =
     (case (case scrape_page L (fetch j u) (item_clock j) (page_clock j) u of
              Inr r \<Rightarrow> Inr r
            | Inl e \<Rightarrow>
                new_ScrapingResult L
                  \<lparr>success = False, products = [], total_count = 0, page_url = u,
                   result_scraped_at = page_clock j, error_message = Some (str_error e)\<rparr>) of
        Inl e \<Rightarrow> Inl e
      | Inr r \<Rightarrow>
          (case scrape_multiple_pages L fetch item_clock page_clock (Suc j) us of
             Inl e \<Rightarrow> Inl e
           | Inr rs \<Rightarrow> Inr (r # rs)))"

text \<open>\<open>RequestsScraper.scrape_page\<close> (lines 245-273).\<close>

definition requests_scrape_page ::
  "library \<Rightarrow> error + node \<Rightarrow> (nat \<Rightarrow> timestamp) \<Rightarrow> timestamp \<Rightarrow> string
     \<Rightarrow> error + ScrapingResult" where
  "requests_scrape_page L fetched clock now u =
     (case (case fetched of
              Inl e \<Rightarrow> Inl e
            | Inr soup \<Rightarrow>
                (case parse_products_simple L clock soup u of
                   Inl e \<Rightarrow> Inl e
                 | Inr ps \<Rightarrow>
                     new_ScrapingResult L
                       \<lparr>success = True, products = ps, total_count = length ps,
                        page_url = u, result_scraped_at = now, error_message = None\<rparr>)) of
        Inr r \<Rightarrow> Inr r
      | Inl e \<Rightarrow>
          new_ScrapingResult L
            \<lparr>success = False, products = [], total_count = 0, page_url = u,
             result_scraped_at = now, error_message = Some (str_error e)\<rparr>)"

section \<open>Storage (database.py)\<close>

subsection \<open>PostgreSQL\<close>

text \<open>
  A row of the \<open>products\<close> table (lines 70-87): the serial \<open>id\<close>, the twelve columns that
  \<open>save_products\<close> fills from a record, and the two bookkeeping timestamps.  The table
  is its rows in physical order, the state of the \<open>id\<close> sequence, and the column lists
  that carry a unique index (a primary key or a unique constraint); the plain indexes
  of lines 89-91 constrain nothing and are left out.
\<close>

record pg_row =
  row_id :: nat
  data :: ProductData
  created_at :: timestamp
  updated_at :: timestamp

record pg_table =
  unique_keys :: "string list list"
  rows :: "pg_row list"
  next_id :: nat

text \<open>\<open>_create_tables\<close> (lines 68-101).  \<open>CREATE TABLE IF NOT EXISTS\<close> leaves an existing
  table as it is; a new table has the primary key on \<open>id\<close> as its only unique index.\<close>

definition create_tables :: "pg_table option \<Rightarrow> pg_table" where
  "create_tables db =
     (case db of
        Some t \<Rightarrow> t
      | None \<Rightarrow> \<lparr>unique_keys = [[''id'']], rows = [], next_id = 1\<rparr>)"

text \<open>\<open>connect\<close> (lines 48-66): the driver reaches the database (whose \<open>products\<close> table
  may or may not exist yet) or raises.\<close>

definition pg_connect :: "error + pg_table option \<Rightarrow> error + pg_table" where
  "pg_connect server = (case server of Inl e \<Rightarrow> Inl e | Inr db \<Rightarrow> Inr (create_tables db))"

text \<open>
  What the column types accept.  A \<open>VARCHAR(n)\<close> column takes a longer string only when
  the excess is all spaces, and stores it cut to \<open>n\<close>; \<open>INTEGER\<close> is 32 bits wide; the
  driver refuses a string that contains the character NUL.
\<close>

definition no_nul :: "string \<Rightarrow> bool" where
  "no_nul s = (CHR 0x00 \<notin> set s)"

definition varchar_ok :: "nat \<Rightarrow> string \<Rightarrow> bool" where
  "varchar_ok n s = (no_nul s \<and> list_all (\<lambda>c. c = CHR '' '') (drop n s))"

definition opt_ok :: "('a \<Rightarrow> bool) \<Rightarrow> 'a option \<Rightarrow> bool" where
  "opt_ok P v = (case v of None \<Rightarrow> True | Some x \<Rightarrow> P x)"

definition int4_ok :: "int \<Rightarrow> bool" where
  "int4_ok v = (- 2147483648 \<le> v \<and> v \<le> 2147483647)"

definition pg_accepts :: "ProductData \<Rightarrow> bool" where
  "pg_accepts p =
     (varchar_ok 255 (name p) \<and> no_nul (tagline p) \<and> opt_ok no_nul (description p)
      \<and> opt_ok (varchar_ok 500) (url p) \<and> opt_ok int4_ok (votes p)
      \<and> opt_ok int4_ok (comments p) \<and> opt_ok (varchar_ok 255) (maker p)
      \<and> opt_ok (varchar_ok 100) (category p) \<and> opt_ok (varchar_ok 500) (image_url p)
      \<and> varchar_ok 500 (source_url p))"

definition pg_stored :: "ProductData \<Rightarrow> ProductData" where
  "pg_stored p =
     p\<lparr>name := take 255 (name p), url := map_option (take 500) (url p),
       maker := map_option (take 255) (maker p),
       category := map_option (take 100) (category p),
       image_url := map_option (take 500) (image_url p),
       source_url := take 500 (source_url p)\<rparr>"

text \<open>
  The unique indexes.  The value of a column in a row, by the column's name; two rows
  clash on an index when they agree on every column of it and none of these values is
  null; an index holds of a list of rows when no two of them clash.
\<close>

datatype sql_value = Null | Text string | Integer int | Timestamp timestamp

definition opt_value :: "('a \<Rightarrow> sql_value) \<Rightarrow> 'a option \<Rightarrow> sql_value" where
  "opt_value f v = (case v of None \<Rightarrow> Null | Some x \<Rightarrow> f x)"

definition columns :: "pg_row \<Rightarrow> (string \<times> sql_value) list" where
  "columns r =
     [(''id'', Integer (int (row_id r))),
      (''name'', Text (name (data r))),
      (''tagline'', Text (tagline (data r))),
      (''description'', opt_value Text (description (data r))),
      (''url'', opt_value Text (url (data r))),
      (''votes'', opt_value Integer (votes (data r))),
      (''comments'', opt_value Integer (comments (data r))),
      (''maker'', opt_value Text (maker (data r))),
      (''category'', opt_value Text (category (data r))),
      (''launch_date'', opt_value Timestamp (launch_date (data r))),
      (''image_url'', opt_value Text (image_url (data r))),
      (''scraped_at'', Timestamp (scraped_at (data r))),
      (''source_url'', Text (source_url (data r))),
      (''created_at'', Timestamp (created_at r)),
      (''updated_at'', Timestamp (updated_at r))]"

definition clash :: "string list \<Rightarrow> pg_row \<Rightarrow> pg_row \<Rightarrow> bool" where
  "clash k r r' =
     (k \<noteq> [] \<and>
      list_all (\<lambda>c. case map_of (columns r) c of
                       None \<Rightarrow> False
                     | Some v \<Rightarrow> v \<noteq> Null \<and> map_of (columns r') c = Some v) k)"

fun no_clash :: "string list \<Rightarrow> pg_row list \<Rightarrow> bool" where
  "no_clash k [] = True"
| "no_clash k (r # rs) = (\<not> list_ex (clash k r) rs \<and> no_clash k rs)"

definition unique_holds :: "pg_table \<Rightarrow> pg_row list \<Rightarrow> bool" where
  "unique_holds t rs = list_all (\<lambda>k. no_clash k rs) (unique_keys t)"

text \<open>\<open>ON CONFLICT (name, source_url)\<close> needs a unique index on exactly these columns;
  without one the statement is rejected.\<close>

definition has_arbiter :: "pg_table \<Rightarrow> bool" where
  "has_arbiter t = list_ex (\<lambda>k. set k = {''name'', ''source_url''}) (unique_keys t)"

definition same_key :: "ProductData \<Rightarrow> ProductData \<Rightarrow> bool" where
  "same_key p q = (name p = name q \<and> source_url p = source_url q)"

text \<open>One execution of the statement of lines 114-127 inside the open transaction.
  \<open>now\<close> is \<open>CURRENT_TIMESTAMP\<close>.  A row with the new row's name and source URL is
  updated in the four listed columns and \<open>updated_at\<close>; without such a row the new row
  is inserted.  Either way the statement fails when the rows would then break a unique
  index of the table.  The sequence value drawn for \<open>id\<close> is used up also when the row
  conflicts and is updated instead.\<close>

definition pg_execute_insert :: "timestamp \<Rightarrow> pg_table \<Rightarrow> ProductData \<Rightarrow> error + pg_table" where
  "pg_execute_insert now t p =
     (if \<not> has_arbiter t then
        Inl (DatabaseError ''no unique constraint matching the ON CONFLICT specification'')
      else if \<not> pg_accepts p then Inl (DatabaseError ''value rejected by column type'')
      else
        (let q = pg_stored p;
             rs =
               (if list_ex (\<lambda>r. same_key (data r) q) (rows t) then
                  map (\<lambda>r. if same_key (data r) q
                            then r\<lparr>data := (data r)\<lparr>tagline := tagline q,
                                                    description := description q,
                                                    votes := votes q, comments := comments q\<rparr>,
                                   updated_at := now\<rparr>
                            else r) (rows t)
                else
                  rows t @ [\<lparr>row_id = next_id t, data = q, created_at = now,
                             updated_at = now\<rparr>])
         in if unique_holds t rs then Inr (t\<lparr>rows := rs, next_id := Suc (next_id t)\<rparr>)
            else Inl (DatabaseError ''duplicate key value violates unique constraint'')))"

text \<open>The loop of lines 131-139: the first failing statement ends it.  The result is
  the error, if any, and the table as the open transaction sees it at that point.\<close>

fun pg_insert_all :: "timestamp \<Rightarrow> pg_table \<Rightarrow> ProductData list \<Rightarrow> error option \<times> pg_table" where
  "pg_insert_all now t [] = (None, t)"
| "pg_insert_all now t (p # ps) =
     (case pg_execute_insert now t p of
        Inl e \<Rightarrow> (Some e, t)
      | Inr t' \<Rightarrow> pg_insert_all now t' ps)"

text \<open>\<open>PostgreSQLManager.save_products\<close> (lines 109-148): commit after the loop, or roll
  back in the handler.  A rollback restores the rows; sequence values are not given
  back.\<close>

definition pg_save_products :: "timestamp \<Rightarrow> pg_table \<Rightarrow> ProductData list \<Rightarrow> bool \<times> pg_table" where
  "pg_save_products now t ps =
     (if ps = [] then (True, t)
      else
        (case pg_insert_all now t ps of
           (None, t') \<Rightarrow> (True, t')
         | (Some e, t') \<Rightarrow> (False, t\<lparr>next_id := next_id t'\<rparr>)))"

text \<open>\<open>ORDER BY scraped_at DESC\<close>; rows with equal \<open>scraped_at\<close> keep their stored order.\<close>

definition newest_first :: "('a \<Rightarrow> timestamp) \<Rightarrow> 'a list \<Rightarrow> 'a list" where
  "newest_first f xs = sort_key (\<lambda>x. - f x) xs"

text \<open>\<open>PostgreSQLManager.get_products\<close> (lines 150-168).  \<open>if limit:\<close> skips the clause
  for \<open>None\<close> and for \<open>0\<close>; a negative \<open>LIMIT\<close> is an error of the server, and the
  handler returns the empty list.\<close>

definition pg_get_products :: "pg_table \<Rightarrow> int option \<Rightarrow> pg_row list" where
  "pg_get_products t limit =
     (case limit of
        None \<Rightarrow> newest_first (\<lambda>r. scraped_at (data r)) (rows t)
      | Some n \<Rightarrow>
          if n = 0 then newest_first (\<lambda>r. scraped_at (data r)) (rows t)
          else if n < 0 then []
          else take (nat n) (newest_first (\<lambda>r. scraped_at (data r)) (rows t)))"

text \<open>The statistics.  The mean of the votes is computed by the server, as a decimal in
  PostgreSQL and as a floating-point number in MongoDB; its type is the parameter \<open>'n\<close>,
  and the server's averaging of the values that are not null is a parameter of each
  \<open>get_stats\<close>.  Without such a value the mean is null.\<close>

record 'n stats =
  total_products :: nat
  unique_sources :: nat
  last_scraped :: "timestamp option"
  avg_votes :: "'n option"

definition maximum :: "timestamp list \<Rightarrow> timestamp option" where
  "maximum xs = (case xs of [] \<Rightarrow> None | x # ys \<Rightarrow> Some (fold max ys x))"

definition non_null :: "'a option list \<Rightarrow> 'a list" where
  "non_null vs = concat (map (\<lambda>v. case v of None \<Rightarrow> [] | Some x \<Rightarrow> [x]) vs)"

definition mean_of :: "(int list \<Rightarrow> 'n) \<Rightarrow> int option list \<Rightarrow> 'n option" where
  "mean_of avg vs = (if non_null vs = [] then None else Some (avg (non_null vs)))"

text \<open>\<open>PostgreSQLManager.get_stats\<close> (lines 170-188): the aggregate query always yields
  one row.\<close>

definition pg_get_stats :: "(int list \<Rightarrow> 'n) \<Rightarrow> pg_table \<Rightarrow> 'n stats option" where
  "pg_get_stats avg t =
     Some \<lparr>total_products = length (rows t),
           unique_sources = length (remdups (map (\<lambda>r. source_url (data r)) (rows t))),
           last_scraped = maximum (map (\<lambda>r. scraped_at (data r)) (rows t)),
           avg_votes = mean_of avg (map (\<lambda>r. votes (data r)) (rows t))\<rparr>"

subsection \<open>MongoDB\<close>

text \<open>A document of the collection: its \<open>_id\<close> and the twelve fields of the record.
  The server is taken to be reachable.\<close>

record mongo_doc =
  oid :: nat
  doc :: ProductData

record mongo_collection =
  docs :: "mongo_doc list"
  next_oid :: nat

text \<open>BSON has no integer wider than 64 bits; the driver raises on a larger one.\<close>

definition int8_ok :: "int \<Rightarrow> bool" where
  "int8_ok v = (- 9223372036854775808 \<le> v \<and> v \<le> 9223372036854775807)"

definition bson_ok :: "ProductData \<Rightarrow> bool" where
  "bson_ok p = (opt_ok int8_ok (votes p) \<and> opt_ok int8_ok (comments p))"

text \<open>\<open>update_one(filter, {"$set": doc}, upsert=True)\<close> (lines 249-253): the first
  document with the record's name and source URL gets every field of the record;
  without such a document a new one is inserted.\<close>

fun set_first :: "ProductData \<Rightarrow> mongo_doc list \<Rightarrow> mongo_doc list" where
  "set_first p [] = []"
| "set_first p (d # ds) =
     (if same_key (doc d) p then d\<lparr>doc := p\<rparr> # ds else d # set_first p ds)"

definition update_one :: "mongo_collection \<Rightarrow> ProductData \<Rightarrow> error + mongo_collection" where
  "update_one c p =
     (if \<not> bson_ok p then Inl (DatabaseError ''MongoDB can only handle up to 8-byte ints'')
      else if list_ex (\<lambda>d. same_key (doc d) p) (docs c) then
        Inr (c\<lparr>docs := set_first p (docs c)\<rparr>)
      else
        Inr (c\<lparr>docs := docs c @ [\<lparr>oid = next_oid c, doc = p\<rparr>], next_oid := Suc (next_oid c)\<rparr>))"

fun update_all :: "mongo_collection \<Rightarrow> ProductData list \<Rightarrow> error option \<times> mongo_collection" where
  "update_all c [] = (None, c)"
| "update_all c (p # ps) =
     (case update_one c p of
        Inl e \<Rightarrow> (Some e, c)
      | Inr c' \<Rightarrow> update_all c' ps)"

text \<open>\<open>MongoDBManager.save_products\<close> (lines 231-260): no transaction surrounds the
  loop, and the handler only reports.\<close>

definition mongo_save_products :: "mongo_collection \<Rightarrow> ProductData list \<Rightarrow> bool \<times> mongo_collection" where
  "mongo_save_products c ps =
     (if ps = [] then (True, c)
      else
        (case update_all c ps of
           (None, c') \<Rightarrow> (True, c')
         | (Some e, c') \<Rightarrow> (False, c')))"

text \<open>\<open>MongoDBManager.get_products\<close> (lines 262-281).  The driver reads a negative
  limit as its absolute value.\<close>

definition mongo_get_products :: "mongo_collection \<Rightarrow> int option \<Rightarrow> mongo_doc list" where
  "mongo_get_products c limit =
     (case limit of
        None \<Rightarrow> newest_first (\<lambda>d. scraped_at (doc d)) (docs c)
      | Some n \<Rightarrow>
          if n = 0 then newest_first (\<lambda>d. scraped_at (doc d)) (docs c)
          else take (nat \<bar>n\<bar>) (newest_first (\<lambda>d. scraped_at (doc d)) (docs c)))"

text \<open>\<open>MongoDBManager.get_stats\<close> (lines 283-312): grouping an empty collection yields
  no group, and the method returns the empty dictionary.\<close>

definition mongo_get_stats :: "(int list \<Rightarrow> 'n) \<Rightarrow> mongo_collection \<Rightarrow> 'n stats option" where
  "mongo_get_stats avg c =
     (if docs c = [] then None
      else Some \<lparr>total_products = length (docs c),
                 unique_sources = length (remdups (map (\<lambda>d. source_url (doc d)) (docs c))),
                 last_scraped = maximum (map (\<lambda>d. scraped_at (doc d)) (docs c)),
                 avg_votes = mean_of avg (map (\<lambda>d. votes (doc d)) (docs c))\<rparr>)"

subsection \<open>Sequences of calls\<close>

text \<open>A session is a sequence of \<open>save_products\<close> calls, each with its batch (and, for
  PostgreSQL, the transaction's timestamp); it yields the results of the calls and the
  final store.\<close>

fun pg_session ::
  "pg_table \<Rightarrow> (timestamp \<times> ProductData list) list \<Rightarrow> bool list \<times> pg_table" where
  "pg_session t [] = ([], t)"
| "pg_session t ((now, ps) # calls) =
     (case pg_save_products now t ps of
        (ok, t') \<Rightarrow> (case pg_session t' calls of (oks, t'') \<Rightarrow> (ok # oks, t'')))"

fun mongo_session ::
  "mongo_collection \<Rightarrow> (timestamp \<times> ProductData list) list \<Rightarrow> bool list \<times> mongo_collection" where
  "mongo_session c [] = ([], c)"
| "mongo_session c ((now, ps) # calls) =
     (case mongo_save_products c ps of
        (ok, c') \<Rightarrow> (case mongo_session c' calls of (oks, c'') \<Rightarrow> (ok # oks, c'')))"

definition empty_collection :: mongo_collection where
  "empty_collection = \<lparr>docs = [], next_oid = 1\<rparr>"

section \<open>The crawler (main.py)\<close>

datatype manager = PostgreSQLManager | MongoDBManager

text \<open>\<open>DatabaseFactory.create_manager\<close> (lines 314-325).  The \<open>ValueError\<close> carries the
  rejected tag.\<close>

definition create_manager :: "string \<Rightarrow> error + manager" where
  "create_manager db_type =
     (if lower db_type = ''postgresql'' then Inr PostgreSQLManager
      else if lower db_type = ''mongodb'' then Inr MongoDBManager
      else Inl (ValueError db_type))"

text \<open>The world outside the program: what connecting to PostgreSQL gives, the MongoDB
  collection, whether the browser starts, what each fetch returns, and the clock.\<close>

record environment =
  connect_postgres :: "error + pg_table option"
  mongo_server :: mongo_collection
  start_browser :: "error option"
  page_content :: "nat \<Rightarrow> string \<Rightarrow> error + node"
  requests_get :: "nat \<Rightarrow> string \<Rightarrow> error + node"
  item_time :: "nat \<Rightarrow> nat \<Rightarrow> timestamp"
  page_time :: "nat \<Rightarrow> timestamp"
  db_time :: timestamp

datatype connected = Postgres pg_table | Mongo mongo_collection

text \<open>\<open>ProductHuntCrawler.initialize\<close> (lines 27-38): one handler around the factory and
  \<open>connect\<close>; it logs a warning and leaves \<open>db_manager\<close> at \<open>None\<close>.\<close>

definition initialize :: "environment \<Rightarrow> string \<Rightarrow> connected option" where
  "initialize E db_type =
     (case create_manager db_type of
        Inl e \<Rightarrow> None
      | Inr PostgreSQLManager \<Rightarrow>
          (case pg_connect (connect_postgres E) of
             Inl e \<Rightarrow> None
           | Inr t \<Rightarrow> Some (Postgres t))
      | Inr MongoDBManager \<Rightarrow> Some (Mongo (mongo_server E)))"

fun requests_loop ::
  "library \<Rightarrow> environment \<Rightarrow> nat \<Rightarrow> string list \<Rightarrow> error + ScrapingResult list" where
  "requests_loop L E j [] = Inr []"
| "requests_loop L E j (u # us) =
     (case requests_scrape_page L (requests_get E j u) (item_time E j) (page_time E j) u of
        Inl e \<Rightarrow> Inl e
      | Inr r \<Rightarrow>
          (case requests_loop L E (Suc j) us of
             Inl e \<Rightarrow> Inl e
           | Inr rs \<Rightarrow> Inr (r # rs)))"

text \<open>\<open>scrape_urls\<close> (lines 45-63).\<close>

definition scrape_urls ::
  "library \<Rightarrow> environment \<Rightarrow> bool \<Rightarrow> string list \<Rightarrow> error + ScrapingResult list" where
  "scrape_urls L E use_playwright urls =
     (if use_playwright then
        (case start_browser E of
           Some e \<Rightarrow> Inl e
         | None \<Rightarrow> scrape_multiple_pages L (page_content E) (item_time E) (page_time E) 0 urls)
      else requests_loop L E 0 urls)"

record config =
  SAVE_TO_FILE :: bool
  OUTPUT_FORMAT :: string

definition manager_save_products ::
  "timestamp \<Rightarrow> connected \<Rightarrow> ProductData list \<Rightarrow> bool \<times> connected" where
  "manager_save_products now m ps =
     (case m of
        Postgres t \<Rightarrow> (case pg_save_products now t ps of (ok, t') \<Rightarrow> (ok, Postgres t'))
      | Mongo c \<Rightarrow> (case mongo_save_products c ps of (ok, c') \<Rightarrow> (ok, Mongo c')))"

text \<open>\<open>save_results\<close> (lines 65-101): the store after the call, and the format and
  records handed to the file exporter, if any.\<close>

definition save_results ::
  "config \<Rightarrow> timestamp \<Rightarrow> connected option \<Rightarrow> ScrapingResult list
     \<Rightarrow> connected option \<times> (string \<times> ProductData list) option" where
  "save_results C now db_manager results =
     (let all_products = concat (map (\<lambda>r. if success r then products r else []) results)
      in if all_products = [] then (db_manager, None)
         else
           (map_option (\<lambda>m. snd (manager_save_products now m all_products)) db_manager,
            if SAVE_TO_FILE C then
              (if lower (OUTPUT_FORMAT C) = ''json'' then Some (''json'', all_products)
               else if lower (OUTPUT_FORMAT C) = ''csv'' then Some (''csv'', all_products)
               else None)
            else None))"

record run_report =
  db_manager_after :: "connected option"
  outcomes :: "ScrapingResult list"
  file_export :: "(string \<times> ProductData list) option"

text \<open>\<open>run\<close> (lines 103-125): an exception of \<open>scrape_urls\<close> is logged and raised
  again.\<close>

definition run ::
  "library \<Rightarrow> environment \<Rightarrow> config \<Rightarrow> bool \<Rightarrow> string \<Rightarrow> string list \<Rightarrow> error + run_report" where
  "run L E C use_playwright db_type urls =
     (let db_manager = initialize E db_type in
      case scrape_urls L E use_playwright urls of
        Inl e \<Rightarrow> Inl e
      | Inr results \<Rightarrow>
          (case save_results C (db_time E) db_manager results of
             (m, f) \<Rightarrow> Inr \<lparr>db_manager_after = m, outcomes = results, file_export = f\<rparr>))"

section \<open>Example inputs\<close>

text \<open>A library instance for the examples: it strips a URL, accepts it when it then
  starts with \<open>http://\<close> or \<open>https://\<close>, and joins a root-relative reference to a base that ends
  with a slash by dropping that slash.\<close>

definition example_library :: library where
  "example_library =
     \<lparr>http_url = (\<lambda>u. if startswith (strip u) ''http://'' \<or> startswith (strip u) ''https://''
                        then Some (strip u) else None),
      urljoin = (\<lambda>base ref. butlast base @ ref)\<rparr>"

definition widget_item :: node where
  "widget_item =
     Tag ''div'' [(''data-test'', AttrStr ''product-item'')]
       [Tag ''h3'' [] [NavigableString ''Widget X''],
        Tag ''p'' [] [NavigableString ''Makes widgets fast''],
        Tag ''a'' [(''href'', AttrStr ''/w/1'')] [NavigableString ''Visit''],
        Tag ''span'' [(''class'', AttrList [''votes''])] [NavigableString ''42 votes'']]"

definition widget_page :: node where
  "widget_page = Tag ''[document]'' [] [Tag ''html'' [] [Tag ''body'' [] [widget_item]]]"

definition dotdot_item :: node where
  "dotdot_item =
     Tag ''div'' [(''data-test'', AttrStr ''product-item'')]
       [Tag ''h3'' [] [NavigableString ''Widget X''],
        Tag ''a'' [(''href'', AttrStr ''../x'')] [NavigableString ''Visit'']]"

definition plain_page :: node where
  "plain_page =
     Tag ''[document]'' []
       [Tag ''h1'' [] [NavigableString '' Weekly digest ''],
        Tag ''p'' [] [NavigableString ''Nothing to see '', Tag ''b'' [] [NavigableString ''here'']],
        Tag ''h2'' [] [NavigableString ''News'']]"

text \<open>A container whose anchor has an absolute \<open>href\<close> with a blank at its end.\<close>

definition padded_item :: node where
  "padded_item =
     Tag ''div'' [(''data-test'', AttrStr ''product-item'')]
       [Tag ''h3'' [] [NavigableString ''Widget X''],
        Tag ''a'' [(''href'', AttrStr ''https://example.test/x '')] [NavigableString ''Visit'']]"

text \<open>A page whose only heading is made of two fragments, \<open>ab\<close> and \<open>cd\<close>, with white
  space around and between them.\<close>

definition fragment_heading :: node where
  "fragment_heading =
     Tag ''h1'' [] [NavigableString ''ab '', Tag ''b'' [] [NavigableString '' cd '']]"

definition fragment_page :: node where
  "fragment_page =
     Tag ''[document]'' []
       [fragment_heading, Tag ''p'' [] [NavigableString ''Two words '', Tag ''i'' [] [NavigableString '' apart'']]]"

definition example_environment :: environment where
  "example_environment =
     \<lparr>connect_postgres = Inr None,
      mongo_server = empty_collection,
      start_browser = None,
      page_content = (\<lambda>j u. if u = ''https://example.test/'' then Inr widget_page
                              else Inl (FetchError ''Timeout 30000ms exceeded.'')),
      requests_get = (\<lambda>j u. Inl (FetchError ''connection refused'')),
      item_time = (\<lambda>j i. 100),
      page_time = (\<lambda>j. 100),
      db_time = 200\<rparr>"

definition example_config :: config where
  "example_config = \<lparr>SAVE_TO_FILE = True, OUTPUT_FORMAT = ''json''\<rparr>"

definition widget :: ProductData where
  "widget =
     \<lparr>name = ''Widget X'', tagline = ''Makes widgets fast'', description = None,
      url = Some ''https://example.test/w/1'', votes = Some 42, comments = Some 0,
      maker = None, category = None, launch_date = None, image_url = None,
      scraped_at = 100, source_url = ''https://example.test/''\<rparr>"

text \<open>A table created beforehand with the unique constraint that the upsert statement
  presupposes.\<close>

definition keyed_table :: pg_table where
  "keyed_table = \<lparr>unique_keys = [[''id''], [''name'', ''source_url'']], rows = [], next_id = 1\<rparr>"

definition second_widget :: ProductData where
  "second_widget = widget\<lparr>tagline := ''Makes widgets faster'', url := None, votes := Some 25,
                          scraped_at := 300\<rparr>"

definition example_calls :: "(timestamp \<times> ProductData list) list" where
  "example_calls = [(5, [widget]), (6, [second_widget])]"

text \<open>A record whose vote count does not fit into 64 bits, as a page with a long digit
  string in its vote element yields.\<close>

definition huge_votes :: ProductData where
  "huge_votes = widget\<lparr>name := ''Widget Y'', votes := Some 9223372036854775808\<rparr>"

section \<open>Notions used in the statements\<close>

text \<open>The natural key of a record, and the part of a record that both backends write
  on every upsert: the key and the four fields that the PostgreSQL statement updates.\<close>

definition key_of :: "ProductData \<Rightarrow> string \<times> string" where
  "key_of p = (name p, source_url p)"

type_synonym view = "string \<times> string \<times> string \<times> string option \<times> int option \<times> int option"

definition mutable_view :: "ProductData \<Rightarrow> view" where
  "mutable_view p = (name p, source_url p, tagline p, description p, votes p, comments p)"

definition view_key :: "view \<Rightarrow> string \<times> string" where
  "view_key v = (fst v, fst (snd v))"

definition overwrite :: "ProductData \<Rightarrow> view \<Rightarrow> view" where
  "overwrite p v = (if view_key v = key_of p then mutable_view p else v)"

definition agree :: "pg_table \<Rightarrow> mongo_collection \<Rightarrow> bool" where
  "agree t c =
     (map (\<lambda>r. mutable_view (data r)) (rows t) = map (\<lambda>d. mutable_view (doc d)) (docs c))"

definition pg_update :: "timestamp \<Rightarrow> ProductData \<Rightarrow> pg_row \<Rightarrow> pg_row" where
  "pg_update now q r =
     (if same_key (data r) q
      then r\<lparr>data := (data r)\<lparr>tagline := tagline q, description := description q,
                              votes := votes q, comments := comments q\<rparr>,
             updated_at := now\<rparr>
      else r)"

text \<open>A table whose unique indexes are the primary key on \<open>id\<close> and an index on
  \<open>(name, source_url)\<close>, and no other.\<close>

definition keyed_schema :: "pg_table \<Rightarrow> bool" where
  "keyed_schema t =
     (has_arbiter t \<and>
      list_all (\<lambda>k. set k = {''id''} \<or> set k = {''name'', ''source_url''}) (unique_keys t))"

definition linked :: "pg_table \<Rightarrow> mongo_collection \<Rightarrow> bool" where
  "linked t c =
     (keyed_schema t \<and> agree t c \<and> distinct (map (\<lambda>r. key_of (data r)) (rows t))
      \<and> distinct (map row_id (rows t)) \<and> list_all (\<lambda>r. row_id r < next_id t) (rows t))"

text \<open>The statistics that depend only on the keys.\<close>

definition stats_view :: "'n stats \<Rightarrow> nat \<times> nat" where
  "stats_view s = (total_products s, unique_sources s)"

text \<open>The sum and the number of the values, as a stand-in for a server's mean in the
  examples.\<close>

definition sum_and_count :: "int list \<Rightarrow> int \<times> nat" where
  "sum_and_count vs = (sum_list vs, length vs)"

text \<open>The trimmed text of an element in the plain sense of the words: the text of the
  element, that is all its strings in document order, with the white space at its two
  ends removed.  (\<open>get_text_strip\<close> above is what the scraper computes instead.)\<close>

definition trimmed_text :: "node \<Rightarrow> string" where
  "trimmed_text nd = strip (concat (strings_of (descendants nd)))"

section \<open>Properties of the extractor\<close>

subsection \<open>Pages without a product container\<close>

text \<open>
  Claim C7.  When none of the four container searches of \<open>_parse_products\<close> finds an
  element (no \<open>div\<close> with \<open>data-test="product-item"\<close>, no \<open>div\<close> whose class contains
  \<open>product\<close>, no \<open>article\<close>, no \<open>div\<close> whose class contains \<open>card\<close>, \<open>item\<close> or \<open>post\<close>),
  the extraction returns the empty list.  It never raises: \<open>parse_products\<close> is a total
  function into lists, every exception of an item being caught inside.
\<close>

theorem parse_products_no_container:
  assumes "find_all [''div''] (attr_is ''data-test'' ''product-item'') soup = []"
    and "find_all [''div''] (class_has [''product'']) soup = []"
    and "find_all [''article''] any_node soup = []"
    and "find_all [''div''] (class_has [''card'', ''item'', ''post'']) soup = []"
  shows "parse_products L clock soup source = []"
  using assms by (simp add: parse_products_def product_items_def)

theorem parse_products_no_container_witness:
  "find_all [''div''] (attr_is ''data-test'' ''product-item'') plain_page = []
   \<and> find_all [''div''] (class_has [''product'']) plain_page = []
   \<and> find_all [''article''] any_node plain_page = []
   \<and> find_all [''div''] (class_has [''card'', ''item'', ''post'']) plain_page = []
   \<and> parse_products example_library (\<lambda>i. 100) plain_page ''https://example.test/'' = []"
proof -
  have 1: "find_all [''div''] (attr_is ''data-test'' ''product-item'') plain_page = []"
    by code_simp
  have 2: "find_all [''div''] (class_has [''product'']) plain_page = []"
    by code_simp
  have 3: "find_all [''article''] any_node plain_page = []"
    by code_simp
  have 4: "find_all [''div''] (class_has [''card'', ''item'', ''post'']) plain_page = []"
    by code_simp
  from parse_products_no_container [OF 1 2 3 4] 1 2 3 4 show ?thesis by simp
qed

subsection \<open>The widget scenario\<close>

lemma widget_items: "product_items widget_page = [widget_item]"
  by code_simp

lemma widget_name:
  "find_first [''h3''] any_node widget_item = Some (Tag ''h3'' [] [NavigableString ''Widget X''])"
  by code_simp

lemma widget_tagline:
  "find_first [''p''] any_node widget_item =
     Some (Tag ''p'' [] [NavigableString ''Makes widgets fast''])"
  by code_simp

lemma widget_link:
  "find_first [''a''] (has_attr ''href'') widget_item =
     Some (Tag ''a'' [(''href'', AttrStr ''/w/1'')] [NavigableString ''Visit''])"
  by code_simp

lemma widget_votes:
  "find_first [''span''] (class_has [''vote'']) widget_item =
     Some (Tag ''span'' [(''class'', AttrList [''votes''])] [NavigableString ''42 votes''])"
  by code_simp

lemma widget_comments: "find_first [''span''] (class_has [''comment'']) widget_item = None"
  by code_simp

lemma widget_image: "find_first [''img''] any_node widget_item = None"
  by code_simp

lemma widget_name_text: "get_text_strip (Tag ''h3'' [] [NavigableString ''Widget X'']) = ''Widget X''"
  by code_simp

lemma widget_tagline_text:
  "get_text_strip (Tag ''p'' [] [NavigableString ''Makes widgets fast'']) = ''Makes widgets fast''"
  by code_simp

lemma widget_votes_number:
  "extract_number
     (get_text_strip (Tag ''span'' [(''class'', AttrList [''votes''])] [NavigableString ''42 votes'']))
   = 42"
  by code_simp

lemma widget_href:
  "string_attr (Tag ''a'' [(''href'', AttrStr ''/w/1'')] [NavigableString ''Visit'']) ''href'' = ''/w/1''"
  by code_simp

lemma resolve_root_relative: "resolve_link L s ''/w/1'' = Some (urljoin L s ''/w/1'')"
  by (simp add: resolve_link_def startswith_def)

text \<open>
  Claim C8.  The page holds one container with the heading \<open>Widget X\<close> (level 3), the
  paragraph \<open>Makes widgets fast\<close>, an anchor with \<open>href="/w/1"\<close> and a span of class
  \<open>votes\<close> reading \<open>42 votes\<close>.  With \<open>urljoin\<close> resolving \<open>/w/1\<close> against
  \<open>https://example.test/\<close> as the standard library does, and both URLs accepted and
  stored as they are by the URL type, the extraction yields exactly one record, with that name, tagline, URL and 42
  votes.
\<close>

theorem widget_scenario:
  assumes "urljoin L ''https://example.test/'' ''/w/1'' = ''https://example.test/w/1''"
    and "http_url L ''https://example.test/'' = Some ''https://example.test/''"
    and "http_url L ''https://example.test/w/1'' = Some ''https://example.test/w/1''"
  shows "parse_products L clock widget_page ''https://example.test/'' =
     [\<lparr>name = ''Widget X'', tagline = ''Makes widgets fast'', description = None,
       url = Some ''https://example.test/w/1'', votes = Some 42, comments = Some 0,
       maker = None, category = None, launch_date = None, image_url = None,
       scraped_at = clock 0, source_url = ''https://example.test/''\<rparr>]"
  using assms
  by (simp add: parse_products_def widget_items extract_product_data_def widget_name
      widget_tagline widget_link widget_votes widget_comments widget_image widget_name_text
      widget_tagline_text widget_votes_number widget_href resolve_root_relative
      orelse_def new_ProductData_def optional_url_def)

theorem widget_scenario_witness:
  "urljoin example_library ''https://example.test/'' ''/w/1'' = ''https://example.test/w/1''
   \<and> http_url example_library ''https://example.test/'' = Some ''https://example.test/''
   \<and> http_url example_library ''https://example.test/w/1'' = Some ''https://example.test/w/1''
   \<and> parse_products example_library (\<lambda>i. 100) widget_page ''https://example.test/'' = [widget]"
proof -
  have 1: "urljoin example_library ''https://example.test/'' ''/w/1'' = ''https://example.test/w/1''"
    by code_simp
  have 2: "http_url example_library ''https://example.test/'' = Some ''https://example.test/''"
    by code_simp
  have 3: "http_url example_library ''https://example.test/w/1''
      = Some ''https://example.test/w/1''"
    by code_simp
  from widget_scenario [OF 1 2 3, of "\<lambda>i. 100"] 1 2 3 show ?thesis
    by (simp add: widget_def)
qed

subsection \<open>The product link\<close>

lemma new_ProductData_url:
  "new_ProductData L q = Inr p \<Longrightarrow> optional_url (http_url L) (url q) = Some (url p)"
  by (auto simp: new_ProductData_def split: option.splits)

lemma extract_product_data_link:
  assumes "extract_product_data L now item source = Some p"
    and "find_first [''a''] (has_attr ''href'') item = Some a"
  shows "optional_url (http_url L) (resolve_link L source (string_attr a ''href'')) = Some (url p)"
  using assms new_ProductData_url
  by (fastforce simp: extract_product_data_def Let_def split: if_splits sum.splits)

text \<open>
  Claim C5, as the code has it.  For a container that yields a record and whose first
  anchor with an \<open>href\<close> is \<open>a\<close>: when the \<open>href\<close> starts with \<open>http\<close>, the record's URL
  is what the URL type makes of the \<open>href\<close>; otherwise, when it starts with \<open>/\<close>, the
  URL is what the type makes of \<open>urljoin\<close> of the source URL and the \<open>href\<close>; for every
  other \<open>href\<close> the record has no URL at all.  So the record has a URL exactly when the
  \<open>href\<close> starts with \<open>http\<close> or with \<open>/\<close>.
\<close>

theorem extract_product_data_url:
  assumes "extract_product_data L now item source = Some p"
    and "find_first [''a''] (has_attr ''href'') item = Some a"
  shows "url p =
     (if startswith (string_attr a ''href'') ''http'' then http_url L (string_attr a ''href'')
      else if startswith (string_attr a ''href'') ''/''
           then http_url L (urljoin L source (string_attr a ''href''))
      else None)
     \<and> (url p \<noteq> None) =
         (startswith (string_attr a ''href'') ''http'' \<or> startswith (string_attr a ''href'') ''/'')"
  using extract_product_data_link [OF assms]
  by (cases "url p") (auto simp: resolve_link_def optional_url_def split: if_splits option.splits)

theorem extract_product_data_url_witness:
  "extract_product_data example_library 100 widget_item ''https://example.test/'' = Some widget
   \<and> find_first [''a''] (has_attr ''href'') widget_item =
       Some (Tag ''a'' [(''href'', AttrStr ''/w/1'')] [NavigableString ''Visit''])
   \<and> url widget = http_url example_library (urljoin example_library ''https://example.test/'' ''/w/1'')
   \<and> url widget = Some ''https://example.test/w/1''
   \<and> extract_product_data example_library 100 padded_item ''https://example.test/''
       = Some (widget\<lparr>tagline := ''No description available'',
                      url := Some ''https://example.test/x'', votes := Some 0\<rparr>)
   \<and> find_first [''a''] (has_attr ''href'') padded_item =
       Some (Tag ''a'' [(''href'', AttrStr ''https://example.test/x '')] [NavigableString ''Visit''])
   \<and> http_url example_library ''https://example.test/x '' = Some ''https://example.test/x''"
proof -
  have 1: "extract_product_data example_library 100 widget_item ''https://example.test/'' = Some widget"
    by code_simp
  have 2: "find_first [''a''] (has_attr ''href'') widget_item =
       Some (Tag ''a'' [(''href'', AttrStr ''/w/1'')] [NavigableString ''Visit''])"
    by code_simp
  have 3: "\<not> startswith ''/w/1'' ''http''" by code_simp
  have 4: "startswith ''/w/1'' ''/''" by code_simp
  have 5: "extract_product_data example_library 100 padded_item ''https://example.test/''
       = Some (widget\<lparr>tagline := ''No description available'',
                      url := Some ''https://example.test/x'', votes := Some 0\<rparr>)"
    by code_simp
  have 6: "find_first [''a''] (has_attr ''href'') padded_item =
       Some (Tag ''a'' [(''href'', AttrStr ''https://example.test/x '')] [NavigableString ''Visit''])"
    by code_simp
  have 7: "startswith ''https://example.test/x '' ''http''" by code_simp
  have 8: "url widget = Some ''https://example.test/w/1''" by (simp add: widget_def)
  have 9: "string_attr (Tag ''a'' [(''href'', AttrStr ''https://example.test/x '')]
      [NavigableString ''Visit'']) ''href'' = ''https://example.test/x ''"
    by code_simp
  from extract_product_data_url [OF 1 2] extract_product_data_url [OF 5 6] 1 2 3 4 5 6 7 8 9
  show ?thesis by (simp add: widget_href)
qed

text \<open>A container whose only anchor has the relative \<open>href\<close> \<open>../x\<close> yields a record
  without URL: the \<open>href\<close> text is not kept.\<close>

theorem dotdot_href_dropped:
  "find_first [''a''] (has_attr ''href'') dotdot_item =
     Some (Tag ''a'' [(''href'', AttrStr ''../x'')] [NavigableString ''Visit''])
   \<and> map_option url (extract_product_data example_library 100 dotdot_item ''https://example.test/'')
     = Some None"
  by code_simp

subsection \<open>The degraded strategy\<close>

lemma simple_loop_valid:
  assumes "http_url L source = Some s"
  shows "simple_loop L clock source ts =
     Inr (map (\<lambda>(i, title, following).
            \<lparr>name = get_text_strip title, tagline = simple_tagline following,
             description = None, url = None, votes = None, comments = None,
             maker = None, category = None, launch_date = None, image_url = None,
             scraped_at = clock i, source_url = s\<rparr>)
          (filter (\<lambda>(i, title, following). 5 < length (get_text_strip title)) ts))"
  using assms
  by (induction ts) (auto simp: new_ProductData_def optional_url_def)

lemma simple_tagline_cases:
  "simple_tagline following =
     (case find_next [''p'', ''div''] following of
        None \<Rightarrow> ''No description available''
      | Some e \<Rightarrow>
          if take 200 (get_text_strip e) = [] then ''No description available''
          else take 200 (get_text_strip e))"
  by (simp add: simple_tagline_def no_description_def split: option.splits)

lemma at_most_ten:
  "length (filter P (enumerate 0 (take 10 xs))) \<le> 10"
  by (rule order_trans [OF length_filter_le]) simp

text \<open>
  Claim C9, as the code has it.  For a source URL that the URL type accepts (and stores
  as \<open>s\<close>), \<open>_parse_products_simple\<close> returns one record for each of the first ten
  headings (levels 1 to 4, in document order) whose text is longer than 5 characters,
  and no other record; at most ten.  The text of an element is here what
  \<open>get_text(strip=True)\<close> gives: each string of the element stripped, the empty ones
  dropped, the rest joined without separator; it is not the element's text trimmed at
  its two ends.  The record's name is that text of the heading; its tagline is that text
  of the first \<open>p\<close> or \<open>div\<close> that follows the heading in the document, cut to 200
  characters, or the sentinel when there is no such element or the text is empty.
\<close>

theorem parse_products_simple_headings:
  assumes "http_url L source = Some s"
  shows "parse_products_simple L clock soup source =
     Inr (map (\<lambda>(i, title, following).
            \<lparr>name = get_text_strip title,
             tagline =
               (case find_next [''p'', ''div''] following of
                  None \<Rightarrow> ''No description available''
                | Some e \<Rightarrow>
                    if take 200 (get_text_strip e) = [] then ''No description available''
                    else take 200 (get_text_strip e)),
             description = None, url = None, votes = None, comments = None,
             maker = None, category = None, launch_date = None, image_url = None,
             scraped_at = clock i, source_url = s\<rparr>)
          (filter (\<lambda>(i, title, following). 5 < length (get_text_strip title))
            (enumerate 0 (take 10
              (filter (\<lambda>(nd, following). is_tag [''h1'', ''h2'', ''h3'', ''h4''] nd)
                (with_following (descendants soup)))))))
     \<and> length (filter (\<lambda>(i, title, following). 5 < length (get_text_strip title))
            (enumerate 0 (take 10
              (filter (\<lambda>(nd, following). is_tag [''h1'', ''h2'', ''h3'', ''h4''] nd)
                (with_following (descendants soup)))))) \<le> 10"
  unfolding parse_products_simple_def titles_def simple_loop_valid [OF assms]
    simple_tagline_cases
  using at_most_ten by simp

theorem parse_products_simple_headings_witness:
  "http_url example_library ''https://example.test/'' = Some ''https://example.test/''
   \<and> parse_products_simple example_library (\<lambda>i. 100) plain_page ''https://example.test/'' =
     Inr [\<lparr>name = ''Weekly digest'', tagline = ''Nothing to seehere'',
           description = None, url = None, votes = None, comments = None,
           maker = None, category = None, launch_date = None, image_url = None,
           scraped_at = 100, source_url = ''https://example.test/''\<rparr>]"
proof -
  have 1: "http_url example_library ''https://example.test/'' = Some ''https://example.test/''"
    by code_simp
  have 2: "map (\<lambda>(i, title, following).
            \<lparr>name = get_text_strip title,
             tagline =
               (case find_next [''p'', ''div''] following of
                  None \<Rightarrow> ''No description available''
                | Some e \<Rightarrow>
                    if take 200 (get_text_strip e) = [] then ''No description available''
                    else take 200 (get_text_strip e)),
             description = None, url = None, votes = None, comments = None,
             maker = None, category = None, launch_date = None, image_url = None,
             scraped_at = 100, source_url = ''https://example.test/''\<rparr>)
          (filter (\<lambda>(i, title, following). 5 < length (get_text_strip title))
            (enumerate 0 (take 10
              (filter (\<lambda>(nd, following). is_tag [''h1'', ''h2'', ''h3'', ''h4''] nd)
                (with_following (descendants plain_page))))))
     = [\<lparr>name = ''Weekly digest'', tagline = ''Nothing to seehere'',
           description = None, url = None, votes = None, comments = None,
           maker = None, category = None, launch_date = None, image_url = None,
           scraped_at = 100, source_url = ''https://example.test/''\<rparr>]"
    by code_simp
  from parse_products_simple_headings [OF 1, of "\<lambda>i. 100" plain_page] 1 2 show ?thesis
    by simp
qed

text \<open>The heading of this page has the trimmed text \<open>ab  cd\<close>, six characters, and the
  page has a paragraph after it; yet the strategy produces no record, because the text
  it measures is \<open>abcd\<close>.\<close>

theorem fragment_heading_dropped:
  "map fst (titles fragment_page) = [fragment_heading]
   \<and> trimmed_text fragment_heading = ''ab  cd''
   \<and> length (trimmed_text fragment_heading) = 6
   \<and> get_text_strip fragment_heading = ''abcd''
   \<and> http_url example_library ''https://example.test/'' = Some ''https://example.test/''
   \<and> parse_products_simple example_library (\<lambda>i. 100) fragment_page ''https://example.test/''
       = Inr []"
  by code_simp

section \<open>Properties of the storage backends\<close>

subsection \<open>The upsert on a table created by \<open>connect\<close>\<close>

lemma no_arbiter_fresh: "\<not> has_arbiter (create_tables None)"
  by (auto simp: has_arbiter_def create_tables_def)

lemma pg_save_products_no_arbiter:
  assumes "\<not> has_arbiter t" and "ps \<noteq> []"
  shows "pg_save_products now t ps = (False, t)"
proof -
  from assms(2) obtain p qs where "ps = p # qs" by (cases ps) auto
  with assms(1) show ?thesis by (simp add: pg_save_products_def pg_execute_insert_def)
qed

text \<open>The MongoDB backend does upsert: two calls with records of one key leave one
  document, which holds the second record.\<close>

lemma mongo_upsert_twice:
  assumes "bson_ok r1" and "bson_ok r2" and "same_key r1 r2"
  shows "mongo_session empty_collection [(now1, [r1]), (now2, [r2])]
     = ([True, True], \<lparr>docs = [\<lparr>oid = 1, doc = r2\<rparr>], next_oid = 2\<rparr>)"
  using assms
  by (simp add: mongo_save_products_def update_one_def empty_collection_def)

text \<open>
  Claim C1, on the PostgreSQL backend.  \<open>connect\<close> on a database without a \<open>products\<close>
  table creates the table with no unique index on \<open>(name, source_url)\<close>.  On that table
  two \<open>save_products\<close> calls with one record each both report failure, and no row is
  stored: the \<open>ON CONFLICT (name, source_url)\<close> clause has no index to rest on, so each
  statement is rejected and rolled back.
\<close>

theorem pg_upsert_twice_fresh_table:
  "pg_connect (Inr None) = Inr (create_tables None)
   \<and> pg_session (create_tables None) [(now1, [r1]), (now2, [r2])]
       = ([False, False], create_tables None)
   \<and> pg_get_products (create_tables None) None = []"
  by (simp add: pg_connect_def pg_save_products_no_arbiter [OF no_arbiter_fresh]
      pg_get_products_def newest_first_def) (simp add: create_tables_def)

subsection \<open>A limit of zero\<close>

text \<open>
  Claim C10.  In both backends \<open>get_products\<close> with limit 0 returns what it returns
  without a limit, and that is every stored row.
\<close>

theorem get_products_limit_zero:
  "pg_get_products t (Some 0) = pg_get_products t None
   \<and> mset (pg_get_products t (Some 0)) = mset (rows t)
   \<and> mongo_get_products c (Some 0) = mongo_get_products c None
   \<and> mset (mongo_get_products c (Some 0)) = mset (docs c)"
  by (simp add: pg_get_products_def mongo_get_products_def newest_first_def)

subsection \<open>A failure in the middle of a batch\<close>

lemma pg_save_products_rollback:
  "\<not> fst (pg_save_products now t ps) \<Longrightarrow> rows (snd (pg_save_products now t ps)) = rows t"
  by (auto simp: pg_save_products_def split: if_splits prod.splits option.splits)

lemma pg_insert_all_rejects:
  "q \<in> set qs \<Longrightarrow> \<not> pg_accepts q \<Longrightarrow> fst (pg_insert_all now t qs) \<noteq> None"
proof (induction qs arbitrary: t)
  case Nil
  then show ?case by simp
next
  case (Cons a qs)
  show ?case
  proof (cases "pg_execute_insert now t a")
    case (Inl e)
    then show ?thesis by simp
  next
    case (Inr t')
    then have "pg_accepts a" by (auto simp: pg_execute_insert_def split: if_splits)
    with Cons.prems have "q \<in> set qs" by auto
    from Cons.IH [OF this Cons.prems(2)] Inr show ?thesis by simp
  qed
qed

lemma pg_save_products_rejects:
  assumes "q \<in> set qs" and "\<not> pg_accepts q"
  shows "\<not> fst (pg_save_products now t qs)"
proof -
  from assms(1) have "qs \<noteq> []" by auto
  moreover from pg_insert_all_rejects [OF assms, of now t]
  obtain e t' where "pg_insert_all now t qs = (Some e, t')"
    by (cases "pg_insert_all now t qs") auto
  ultimately show ?thesis by (simp add: pg_save_products_def)
qed

lemma update_all_append:
  "update_all c (pre @ rest) =
     (case update_all c pre of (None, c') \<Rightarrow> update_all c' rest | (Some e, c') \<Rightarrow> (Some e, c'))"
  by (induction pre arbitrary: c) (auto split: sum.splits)

lemma update_all_accepted: "list_all bson_ok pre \<Longrightarrow> fst (update_all c pre) = None"
proof (induction pre arbitrary: c)
  case Nil
  then show ?case by simp
next
  case (Cons a pre)
  from Cons.prems have "bson_ok a" by simp
  then have "\<exists>c'. update_one c a = Inr c'" by (simp add: update_one_def)
  then obtain c' where "update_one c a = Inr c'" ..
  with Cons show ?case by simp
qed

lemma mongo_save_products_prefix:
  assumes "list_all bson_ok pre" and "\<not> bson_ok p"
  shows "mongo_save_products c (pre @ p # post) = (False, snd (mongo_save_products c pre))"
proof -
  from update_all_accepted [OF assms(1), of c]
  obtain c' where pre: "update_all c pre = (None, c')"
    by (cases "update_all c pre") auto
  from assms(2)
  have "update_one c' p = Inl (DatabaseError ''MongoDB can only handle up to 8-byte ints'')"
    by (simp add: update_one_def)
  with pre have "update_all c (pre @ p # post) =
      (Some (DatabaseError ''MongoDB can only handle up to 8-byte ints''), c')"
    by (simp add: update_all_append)
  moreover from pre have "snd (mongo_save_products c pre) = c'"
    by (cases "pre = []") (auto simp: mongo_save_products_def)
  ultimately show ?thesis by (simp add: mongo_save_products_def)
qed

text \<open>
  Claim C4, as the code has it.  PostgreSQL: a batch that holds a record the table
  rejects makes \<open>save_products\<close> report failure, and the rows are those from before the
  call.  MongoDB: a batch whose first record that cannot be encoded is \<open>p\<close> makes
  \<open>save_products\<close> report failure too, but the collection is then the one that saving
  the records before \<open>p\<close> gives: they stay written.
\<close>

theorem save_products_failure:
  assumes "q \<in> set qs" and "\<not> pg_accepts q" and "list_all bson_ok pre" and "\<not> bson_ok p"
  shows "\<not> fst (pg_save_products now t qs)
     \<and> rows (snd (pg_save_products now t qs)) = rows t
     \<and> mongo_save_products c (pre @ p # post) = (False, snd (mongo_save_products c pre))"
  using pg_save_products_rejects [OF assms(1,2)] pg_save_products_rollback
    mongo_save_products_prefix [OF assms(3,4)] by blast

theorem save_products_failure_witness:
  "\<not> pg_accepts huge_votes \<and> list_all bson_ok [widget] \<and> \<not> bson_ok huge_votes
   \<and> \<not> fst (pg_save_products 5 keyed_table [widget, huge_votes])
   \<and> rows (snd (pg_save_products 5 keyed_table [widget, huge_votes])) = []
   \<and> mongo_save_products empty_collection [widget, huge_votes, second_widget]
       = (False, \<lparr>docs = [\<lparr>oid = 1, doc = widget\<rparr>], next_oid = 2\<rparr>)"
proof -
  have 1: "huge_votes \<in> set [widget, huge_votes]" by simp
  have 2: "\<not> pg_accepts huge_votes" by code_simp
  have 3: "list_all bson_ok [widget]" by code_simp
  have 4: "\<not> bson_ok huge_votes" by code_simp
  have 5: "snd (mongo_save_products empty_collection [widget])
      = \<lparr>docs = [\<lparr>oid = 1, doc = widget\<rparr>], next_oid = 2\<rparr>"
    by code_simp
  have 6: "rows keyed_table = []" by (simp add: keyed_table_def)
  from save_products_failure [OF 1 2 3 4, of 5 keyed_table empty_collection "[second_widget]"]
    2 3 4 5 6
  show ?thesis by simp
qed

text \<open>A MongoDB batch of two records whose second one cannot be encoded: the call
  reports failure, and a query afterwards returns the first record.\<close>

theorem mongo_partial_batch:
  "mongo_save_products empty_collection [widget, huge_votes]
     = (False, \<lparr>docs = [\<lparr>oid = 1, doc = widget\<rparr>], next_oid = 2\<rparr>)
   \<and> mongo_get_products (snd (mongo_save_products empty_collection [widget, huge_votes])) None
     = [\<lparr>oid = 1, doc = widget\<rparr>]"
  by code_simp

subsection \<open>The two backends side by side\<close>

lemma same_key_iff: "same_key p q \<longleftrightarrow> key_of p = key_of q"
  by (auto simp: same_key_def key_of_def)

lemma view_key_view: "view_key (mutable_view p) = key_of p"
  by (simp add: key_of_def mutable_view_def view_key_def)

lemma int4_int8: "int4_ok v \<Longrightarrow> int8_ok v"
  by (simp add: int4_ok_def int8_ok_def)

lemma pg_accepts_bson: "pg_accepts p \<Longrightarrow> bson_ok p"
  by (auto simp: pg_accepts_def bson_ok_def opt_ok_def int4_int8 split: option.splits)

text \<open>The two kinds of index of a keyed table, in terms of the rows.\<close>

lemma col_id: "map_of (columns r) ''id'' = Some (Integer (int (row_id r)))"
  by (simp add: columns_def)

lemma col_name: "map_of (columns r) ''name'' = Some (Text (name (data r)))"
  by (simp add: columns_def)

lemma col_source: "map_of (columns r) ''source_url'' = Some (Text (source_url (data r)))"
  by (simp add: columns_def)

lemma list_all_singleton_set: "set k = {a} \<Longrightarrow> list_all P k \<longleftrightarrow> P a"
  by (simp only: list_all_iff) blast

lemma list_all_pair_set: "set k = {a, b} \<Longrightarrow> list_all P k \<longleftrightarrow> P a \<and> P b"
  by (simp only: list_all_iff) blast

lemma set_nonempty: "set k = insert a A \<Longrightarrow> k \<noteq> []"
  by (cases k) simp_all

lemma clash_id:
  assumes "set k = {''id''}"
  shows "clash k r r' \<longleftrightarrow> row_id r = row_id r'"
  unfolding clash_def list_all_singleton_set [OF assms]
  using set_nonempty [OF assms] by (auto simp: col_id)

lemma clash_key:
  assumes "set k = {''name'', ''source_url''}"
  shows "clash k r r' \<longleftrightarrow> key_of (data r) = key_of (data r')"
  unfolding clash_def list_all_pair_set [OF assms]
  using set_nonempty [OF assms] by (auto simp: col_name col_source key_of_def)

lemma no_clash_distinct:
  assumes "\<And>r r'. clash k r r' \<longleftrightarrow> f r = f r'"
  shows "no_clash k rs \<longleftrightarrow> distinct (map f rs)"
  by (induction rs) (auto simp: list_ex_iff assms)

lemma unique_holds_keyed:
  assumes "keyed_schema t" and "distinct (map row_id rs)"
    and "distinct (map (\<lambda>r. key_of (data r)) rs)"
  shows "unique_holds t rs"
proof -
  have "no_clash k rs" if "k \<in> set (unique_keys t)" for k
  proof -
    from assms(1) that have "set k = {''id''} \<or> set k = {''name'', ''source_url''}"
      by (simp add: keyed_schema_def list_all_iff)
    then show ?thesis
    proof
      assume "set k = {''id''}"
      from no_clash_distinct [of k row_id, OF clash_id [OF this]] assms(2) show ?thesis by simp
    next
      assume "set k = {''name'', ''source_url''}"
      from no_clash_distinct [of k "\<lambda>r. key_of (data r)", OF clash_key [OF this]] assms(3)
      show ?thesis by simp
    qed
  qed
  then show ?thesis by (simp add: unique_holds_def list_all_iff)
qed

lemma agree_keys:
  assumes "agree t c"
  shows "map (\<lambda>r. key_of (data r)) (rows t) = map (\<lambda>d. key_of (doc d)) (docs c)"
proof -
  have "map view_key (map (\<lambda>r. mutable_view (data r)) (rows t))
      = map view_key (map (\<lambda>d. mutable_view (doc d)) (docs c))"
    using assms by (simp only: agree_def)
  then show ?thesis by (simp add: view_key_view o_def)
qed

lemma list_ex_key:
  "list_ex (\<lambda>r. same_key (f r) q) xs \<longleftrightarrow> key_of q \<in> set (map (\<lambda>r. key_of (f r)) xs)"
  by (force simp: list_ex_iff same_key_iff)

lemma overwrite_absent:
  "key_of p \<notin> set (map (\<lambda>d. key_of (doc d)) ds) \<Longrightarrow>
   map (overwrite p) (map (\<lambda>d. mutable_view (doc d)) ds) = map (\<lambda>d. mutable_view (doc d)) ds"
  by (induction ds) (auto simp: overwrite_def view_key_view)

lemma set_first_view:
  assumes "distinct (map (\<lambda>d. key_of (doc d)) ds)"
  shows "map (\<lambda>d. mutable_view (doc d)) (set_first p ds)
       = map (overwrite p) (map (\<lambda>d. mutable_view (doc d)) ds)"
  using assms
proof (induction ds)
  case Nil
  then show ?case by simp
next
  case (Cons d ds)
  show ?case
  proof (cases "same_key (doc d) p")
    case True
    then have k: "key_of (doc d) = key_of p" by (simp add: same_key_iff)
    from Cons.prems have "key_of (doc d) \<notin> set (map (\<lambda>d. key_of (doc d)) ds)" by simp
    with k have "key_of p \<notin> set (map (\<lambda>d. key_of (doc d)) ds)" by simp
    from overwrite_absent [OF this] True k show ?thesis
      by (simp add: overwrite_def view_key_view)
  next
    case False
    then have "key_of (doc d) \<noteq> key_of p" by (simp add: same_key_iff)
    moreover from Cons have "map (\<lambda>d. mutable_view (doc d)) (set_first p ds)
       = map (overwrite p) (map (\<lambda>d. mutable_view (doc d)) ds)" by simp
    ultimately show ?thesis using False by (simp add: overwrite_def view_key_view)
  qed
qed

lemma pg_update_view:
  "map (\<lambda>r. mutable_view (data r)) (map (pg_update now q) rs)
   = map (overwrite q) (map (\<lambda>r. mutable_view (data r)) rs)"
  by (induction rs)
    (auto simp: pg_update_def overwrite_def view_key_def same_key_def key_of_def mutable_view_def)

lemma pg_update_key: "key_of (data (pg_update now q r)) = key_of (data r)"
  by (simp add: pg_update_def key_of_def)

lemma pg_update_keys:
  "map ((\<lambda>r. key_of (data r)) \<circ> pg_update now q) rs = map (\<lambda>r. key_of (data r)) rs"
  by (simp add: pg_update_key)

lemma pg_update_id: "row_id (pg_update now q r) = row_id r"
  by (simp add: pg_update_def)

lemma pg_update_ids: "map (row_id \<circ> pg_update now q) rs = map row_id rs"
  by (simp add: pg_update_id)

lemma pg_execute_insert_update:
  assumes "has_arbiter t" and "pg_accepts p" and "pg_stored p = p"
    and "list_ex (\<lambda>r. same_key (data r) p) (rows t)"
    and "unique_holds t (map (pg_update now p) (rows t))"
  shows "pg_execute_insert now t p =
     Inr (t\<lparr>rows := map (pg_update now p) (rows t), next_id := Suc (next_id t)\<rparr>)"
proof -
  have "(\<lambda>r. if same_key (data r) p
              then r\<lparr>data := (data r)\<lparr>tagline := tagline p, description := description p,
                                      votes := votes p, comments := comments p\<rparr>,
                     updated_at := now\<rparr>
              else r) = pg_update now p"
    by (rule ext) (simp add: pg_update_def)
  with assms show ?thesis by (simp add: pg_execute_insert_def)
qed

lemma pg_execute_insert_new:
  assumes "has_arbiter t" and "pg_accepts p" and "pg_stored p = p"
    and "\<not> list_ex (\<lambda>r. same_key (data r) p) (rows t)"
    and "unique_holds t (rows t @ [\<lparr>row_id = next_id t, data = p, created_at = now,
                                    updated_at = now\<rparr>])"
  shows "pg_execute_insert now t p =
     Inr (t\<lparr>rows := rows t @ [\<lparr>row_id = next_id t, data = p, created_at = now,
                                 updated_at = now\<rparr>],
            next_id := Suc (next_id t)\<rparr>)"
  using assms by (simp add: pg_execute_insert_def)

lemma keyed_schema_rows: "keyed_schema (t\<lparr>rows := rs, next_id := n\<rparr>) = keyed_schema t"
  by (simp add: keyed_schema_def has_arbiter_def)

lemma unique_holds_rows: "unique_holds (t\<lparr>rows := rs, next_id := n\<rparr>) xs = unique_holds t xs"
  by (simp add: unique_holds_def)

lemma step_linked:
  assumes "linked t c" and "pg_accepts p" and "pg_stored p = p"
  shows "\<exists>t' c'. pg_execute_insert now t p = Inr t' \<and> update_one c p = Inr c' \<and> linked t' c'"
proof -
  from assms(1) have ks: "keyed_schema t" and ag: "agree t c"
    and dist: "distinct (map (\<lambda>r. key_of (data r)) (rows t))"
    and ids: "distinct (map row_id (rows t))"
    and below: "list_all (\<lambda>r. row_id r < next_id t) (rows t)"
    by (simp_all add: linked_def)
  from ks have arb: "has_arbiter t" by (simp add: keyed_schema_def)
  have keys: "map (\<lambda>r. key_of (data r)) (rows t) = map (\<lambda>d. key_of (doc d)) (docs c)"
    by (rule agree_keys [OF ag])
  have bs: "bson_ok p" by (rule pg_accepts_bson [OF assms(2)])
  have ex: "list_ex (\<lambda>r. same_key (data r) p) (rows t)
      \<longleftrightarrow> list_ex (\<lambda>d. same_key (doc d) p) (docs c)"
    by (simp only: list_ex_key keys)
  show ?thesis
  proof (cases "list_ex (\<lambda>r. same_key (data r) p) (rows t)")
    case True
    with ex have exm: "list_ex (\<lambda>d. same_key (doc d) p) (docs c)" by simp
    from dist keys have distm: "distinct (map (\<lambda>d. key_of (doc d)) (docs c))" by simp
    let ?rs = "map (pg_update now p) (rows t)"
    let ?t = "t\<lparr>rows := ?rs, next_id := Suc (next_id t)\<rparr>"
    let ?c = "c\<lparr>docs := set_first p (docs c)\<rparr>"
    have 4: "distinct (map (\<lambda>r. key_of (data r)) ?rs)"
      using dist by (simp add: pg_update_keys)
    have 6: "distinct (map row_id ?rs)"
      using ids by (simp add: pg_update_ids)
    have 7: "list_all (\<lambda>r. row_id r < Suc (next_id t)) ?rs"
      using below by (auto simp: list_all_iff pg_update_id)
    have 1: "pg_execute_insert now t p = Inr ?t"
      by (rule pg_execute_insert_update [OF arb assms(2,3) True unique_holds_keyed [OF ks 6 4]])
    have 2: "update_one c p = Inr ?c"
      using bs exm by (simp add: update_one_def)
    have "map (\<lambda>r. mutable_view (data r)) ?rs
        = map (\<lambda>d. mutable_view (doc d)) (set_first p (docs c))"
      using ag by (simp only: pg_update_view set_first_view [OF distm] agree_def)
    then have 3: "agree ?t ?c" by (simp add: agree_def)
    have "linked ?t ?c"
      unfolding linked_def using ks 3 4 6 7 by (simp add: keyed_schema_rows)
    with 1 2 show ?thesis by blast
  next
    case False
    with ex have exm: "\<not> list_ex (\<lambda>d. same_key (doc d) p) (docs c)" by simp
    from False have nin: "key_of p \<notin> set (map (\<lambda>r. key_of (data r)) (rows t))"
      unfolding list_ex_key .
    let ?rs = "rows t @ [\<lparr>row_id = next_id t, data = p, created_at = now, updated_at = now\<rparr>]"
    let ?t = "t\<lparr>rows := ?rs, next_id := Suc (next_id t)\<rparr>"
    let ?c = "c\<lparr>docs := docs c @ [\<lparr>oid = next_oid c, doc = p\<rparr>], next_oid := Suc (next_oid c)\<rparr>"
    have 4: "distinct (map (\<lambda>r. key_of (data r)) ?rs)"
      using dist nin by simp
    from below have "next_id t \<notin> set (map row_id (rows t))"
      by (auto simp: list_all_iff)
    with ids have 6: "distinct (map row_id ?rs)" by simp
    have 7: "list_all (\<lambda>r. row_id r < Suc (next_id t)) ?rs"
      using below by (auto simp: list_all_iff)
    have 1: "pg_execute_insert now t p = Inr ?t"
      by (rule pg_execute_insert_new [OF arb assms(2,3) False unique_holds_keyed [OF ks 6 4]])
    have 2: "update_one c p = Inr ?c"
      using bs exm by (simp add: update_one_def)
    have 3: "agree ?t ?c" using ag by (simp add: agree_def)
    have "linked ?t ?c"
      unfolding linked_def using ks 3 4 6 7 by (simp add: keyed_schema_rows)
    with 1 2 show ?thesis by blast
  qed
qed

lemma loop_linked:
  assumes "linked t c" and "\<forall>p\<in>set ps. pg_accepts p \<and> pg_stored p = p"
  shows "\<exists>t' c'. pg_insert_all now t ps = (None, t') \<and> update_all c ps = (None, c')
            \<and> linked t' c'"
  using assms
proof (induction ps arbitrary: t c)
  case Nil
  then show ?case by simp
next
  case (Cons p ps)
  from Cons.prems have "pg_accepts p" "pg_stored p = p" by simp_all
  from step_linked [OF Cons.prems(1) this, of now] obtain t1 c1
    where 1: "pg_execute_insert now t p = Inr t1" "update_one c p = Inr c1" "linked t1 c1"
    by blast
  from Cons.prems have "\<forall>p\<in>set ps. pg_accepts p \<and> pg_stored p = p" by simp
  from Cons.IH [OF 1(3) this] 1 show ?case by simp
qed

lemma save_linked:
  assumes "linked t c" and "\<forall>p\<in>set ps. pg_accepts p \<and> pg_stored p = p"
  shows "\<exists>t' c'. pg_save_products now t ps = (True, t') \<and> mongo_save_products c ps = (True, c')
            \<and> linked t' c'"
proof (cases "ps = []")
  case True
  with assms show ?thesis by (simp add: pg_save_products_def mongo_save_products_def)
next
  case False
  from loop_linked [OF assms, of now] obtain t' c'
    where "pg_insert_all now t ps = (None, t')" "update_all c ps = (None, c')" "linked t' c'"
    by blast
  with False show ?thesis by (simp add: pg_save_products_def mongo_save_products_def)
qed

lemma session_linked:
  assumes "linked t c"
    and "\<forall>call\<in>set calls. \<forall>p\<in>set (snd call). pg_accepts p \<and> pg_stored p = p"
  shows "\<exists>t' c'. pg_session t calls = (replicate (length calls) True, t')
            \<and> mongo_session c calls = (replicate (length calls) True, c') \<and> linked t' c'"
  using assms
proof (induction calls arbitrary: t c)
  case Nil
  then show ?case by simp
next
  case (Cons call calls)
  obtain now ps where call: "call = (now, ps)" by (cases call)
  with Cons.prems have "\<forall>p\<in>set ps. pg_accepts p \<and> pg_stored p = p" by simp
  from save_linked [OF Cons.prems(1) this, of now] obtain t1 c1
    where 1: "pg_save_products now t ps = (True, t1)" "mongo_save_products c ps = (True, c1)"
      "linked t1 c1"
    by blast
  from Cons.prems
  have "\<forall>call\<in>set calls. \<forall>p\<in>set (snd call). pg_accepts p \<and> pg_stored p = p" by simp
  from Cons.IH [OF 1(3) this] 1 call show ?case by auto
qed

lemma agree_stats:
  assumes "agree t c" and "docs c \<noteq> []"
  shows "map_option stats_view (mongo_get_stats avg' c) = map_option stats_view (pg_get_stats avg t)"
proof -
  from assms(1)
  have v: "map (\<lambda>r. mutable_view (data r)) (rows t) = map (\<lambda>d. mutable_view (doc d)) (docs c)"
    by (simp add: agree_def)
  from v have len: "length (rows t) = length (docs c)"
    by (rule map_eq_imp_length_eq)
  from v have "map (\<lambda>v. fst (snd v)) (map (\<lambda>r. mutable_view (data r)) (rows t))
      = map (\<lambda>v. fst (snd v)) (map (\<lambda>d. mutable_view (doc d)) (docs c))" by simp
  then have src: "map (\<lambda>r. source_url (data r)) (rows t) = map (\<lambda>d. source_url (doc d)) (docs c)"
    by (simp add: mutable_view_def o_def)
  from assms(2) len src show ?thesis
    by (simp add: mongo_get_stats_def pg_get_stats_def stats_view_def)
qed

lemma linked_start: "keyed_schema t \<Longrightarrow> rows t = [] \<Longrightarrow> docs c = [] \<Longrightarrow> linked t c"
  by (simp add: linked_def agree_def)

text \<open>
  Claim C3, as the code has it.  Take a \<open>products\<close> table whose unique indexes are the
  primary key and the index on \<open>(name, source_url)\<close> which the upsert statement
  presupposes, both stores empty, and any sequence of \<open>save_products\<close> calls whose records
  the column types accept unchanged (BSON then accepts them too).  Then every call
  succeeds in both backends, and a query of either backend afterwards returns the same
  keys, each once, with the same tagline, description, votes and comments (as a
  multiset: nothing is stated about the order of the two results); and the statistics
  agree in \<open>total_products\<close> and \<open>unique_sources\<close> when something is stored, while MongoDB
  returns the empty dictionary on an empty store.  Nothing is stated about the other
  fields, which PostgreSQL keeps from the first write and MongoDB overwrites, nor about
  \<open>last_scraped\<close> and the mean of the votes.
\<close>

theorem backends_agree_on_upserts:
  assumes "keyed_schema t" and "rows t = []" and "docs c = []"
    and "\<forall>call\<in>set calls. \<forall>p\<in>set (snd call). pg_accepts p \<and> pg_stored p = p"
  shows "fst (pg_session t calls) = replicate (length calls) True
     \<and> fst (mongo_session c calls) = replicate (length calls) True
     \<and> mset (map (\<lambda>r. mutable_view (data r)) (pg_get_products (snd (pg_session t calls)) None))
         = mset (map (\<lambda>d. mutable_view (doc d))
                  (mongo_get_products (snd (mongo_session c calls)) None))
     \<and> distinct (map (\<lambda>r. key_of (data r)) (pg_get_products (snd (pg_session t calls)) None))
     \<and> distinct (map (\<lambda>d. key_of (doc d))
                  (mongo_get_products (snd (mongo_session c calls)) None))
     \<and> (if mongo_get_products (snd (mongo_session c calls)) None = []
         then mongo_get_stats avg' (snd (mongo_session c calls)) = None
         else map_option stats_view (mongo_get_stats avg' (snd (mongo_session c calls)))
              = map_option stats_view (pg_get_stats avg (snd (pg_session t calls))))"
proof -
  from session_linked [OF linked_start [OF assms(1-3)] assms(4)] obtain t' c'
    where pg: "pg_session t calls = (replicate (length calls) True, t')"
      and mg: "mongo_session c calls = (replicate (length calls) True, c')"
      and lk: "linked t' c'"
    by blast
  from lk have ag: "agree t' c'"
    and dist: "distinct (map (\<lambda>r. key_of (data r)) (rows t'))"
    by (simp_all add: linked_def)
  from ag have vw: "map (\<lambda>r. mutable_view (data r)) (rows t')
      = map (\<lambda>d. mutable_view (doc d)) (docs c')"
    by (simp add: agree_def)
  have q1: "mset (pg_get_products t' None) = mset (rows t')"
    by (simp add: pg_get_products_def newest_first_def)
  have q2: "mset (mongo_get_products c' None) = mset (docs c')"
    by (simp add: mongo_get_products_def newest_first_def)
  have m1: "mset (map (\<lambda>r. mutable_view (data r)) (pg_get_products t' None))
      = mset (map (\<lambda>r. mutable_view (data r)) (rows t'))"
    using q1 by (metis mset_map)
  have m2: "mset (map (\<lambda>d. mutable_view (doc d)) (mongo_get_products c' None))
      = mset (map (\<lambda>d. mutable_view (doc d)) (docs c'))"
    using q2 by (metis mset_map)
  have k1: "mset (map (\<lambda>r. key_of (data r)) (pg_get_products t' None))
      = mset (map (\<lambda>r. key_of (data r)) (rows t'))"
    using q1 by (metis mset_map)
  have k2: "mset (map (\<lambda>d. key_of (doc d)) (mongo_get_products c' None))
      = mset (map (\<lambda>d. key_of (doc d)) (docs c'))"
    using q2 by (metis mset_map)
  have d1: "distinct (map (\<lambda>r. key_of (data r)) (pg_get_products t' None))"
    using dist mset_eq_imp_distinct_iff [OF k1] by simp
  from dist agree_keys [OF ag] have "distinct (map (\<lambda>d. key_of (doc d)) (docs c'))" by simp
  then have d2: "distinct (map (\<lambda>d. key_of (doc d)) (mongo_get_products c' None))"
    using mset_eq_imp_distinct_iff [OF k2] by simp
  have e: "mongo_get_products c' None = [] \<longleftrightarrow> docs c' = []"
    using q2 by (metis mset_zero_iff)
  have st: "if mongo_get_products c' None = [] then mongo_get_stats avg' c' = None
      else map_option stats_view (mongo_get_stats avg' c')
           = map_option stats_view (pg_get_stats avg t')"
  proof (cases "docs c' = []")
    case True
    with e show ?thesis by (simp add: mongo_get_stats_def)
  next
    case False
    from agree_stats [OF ag False, of avg' avg] False e show ?thesis by simp
  qed
  from pg mg m1 m2 vw d1 d2 st show ?thesis by simp
qed

theorem backends_agree_on_upserts_witness:
  "keyed_schema keyed_table \<and> rows keyed_table = [] \<and> docs empty_collection = []
   \<and> list_all (\<lambda>call. list_all (\<lambda>p. pg_accepts p \<and> pg_stored p = p) (snd call)) example_calls
   \<and> fst (pg_session keyed_table example_calls) = [True, True]
   \<and> fst (mongo_session empty_collection example_calls) = [True, True]
   \<and> map (\<lambda>r. mutable_view (data r))
       (pg_get_products (snd (pg_session keyed_table example_calls)) None)
       = [(''Widget X'', ''https://example.test/'', ''Makes widgets faster'', None, Some 25, Some 0)]
   \<and> map (\<lambda>d. mutable_view (doc d))
       (mongo_get_products (snd (mongo_session empty_collection example_calls)) None)
       = [(''Widget X'', ''https://example.test/'', ''Makes widgets faster'', None, Some 25, Some 0)]
   \<and> map_option stats_view
       (mongo_get_stats sum_and_count (snd (mongo_session empty_collection example_calls)))
       = Some (1, 1)
   \<and> map_option stats_view
       (pg_get_stats sum_and_count (snd (pg_session keyed_table example_calls)))
       = Some (1, 1)"
proof -
  have 1: "keyed_schema keyed_table" by code_simp
  have 2: "rows keyed_table = []" by (simp add: keyed_table_def)
  have 3: "docs empty_collection = []" by (simp add: empty_collection_def)
  have 4: "list_all (\<lambda>call. list_all (\<lambda>p. pg_accepts p \<and> pg_stored p = p) (snd call))
      example_calls"
    by code_simp
  then have 5: "\<forall>call\<in>set example_calls. \<forall>p\<in>set (snd call). pg_accepts p \<and> pg_stored p = p"
    by (simp add: list_all_iff)
  have 6: "length example_calls = 2" by (simp add: example_calls_def)
  have 7: "map (\<lambda>d. mutable_view (doc d))
       (mongo_get_products (snd (mongo_session empty_collection example_calls)) None)
       = [(''Widget X'', ''https://example.test/'', ''Makes widgets faster'', None, Some 25, Some 0)]"
    by code_simp
  have 8: "map_option stats_view
       (mongo_get_stats sum_and_count (snd (mongo_session empty_collection example_calls)))
       = Some (1, 1)"
    by code_simp
  have 9: "mongo_get_products (snd (mongo_session empty_collection example_calls)) None \<noteq> []"
    using 7 by auto
  have 10: "map (\<lambda>r. mutable_view (data r))
       (pg_get_products (snd (pg_session keyed_table example_calls)) None)
       = [(''Widget X'', ''https://example.test/'', ''Makes widgets faster'', None, Some 25, Some 0)]"
    by code_simp
  from backends_agree_on_upserts [OF 1 2 3 5, of sum_and_count sum_and_count]
    1 2 3 4 6 7 8 9 10
  show ?thesis by (simp add: numeral_2_eq_2)
qed

text \<open>On the table with the unique index, a second upsert of a key with another URL and
  another \<open>scraped_at\<close>: PostgreSQL keeps both from the first write, MongoDB takes both
  from the second, so the queries and \<open>last_scraped\<close> differ.\<close>

theorem backends_differ_on_second_write:
  "pg_connect (Inr (Some keyed_table)) = Inr keyed_table
   \<and> map (\<lambda>r. (url (data r), scraped_at (data r)))
       (pg_get_products (snd (pg_session keyed_table example_calls)) None)
     = [(Some ''https://example.test/w/1'', 100)]
   \<and> map (\<lambda>d. (url (doc d), scraped_at (doc d)))
       (mongo_get_products (snd (mongo_session empty_collection example_calls)) None)
     = [(None, 300)]
   \<and> map_option last_scraped
       (pg_get_stats sum_and_count (snd (pg_session keyed_table example_calls)))
     = Some (Some 100)
   \<and> map_option last_scraped
       (mongo_get_stats sum_and_count (snd (mongo_session empty_collection example_calls)))
     = Some (Some 300)"
  by code_simp

section \<open>Properties of the crawler\<close>

subsection \<open>An unsupported backend tag\<close>

text \<open>
  Claim C2, as the code has it.  For a tag whose lower-case form is neither
  \<open>postgresql\<close> nor \<open>mongodb\<close> the factory raises its \<open>ValueError\<close>; \<open>initialize\<close> catches
  it and leaves the crawler without a database manager; and \<open>run\<close> goes on: it fetches
  the URLs as it would otherwise, stores nothing in a database, and hands the records
  to the file exporter as configured.
\<close>

theorem unsupported_tag_file_only:
  assumes "lower db_type \<noteq> ''postgresql''" and "lower db_type \<noteq> ''mongodb''"
  shows "create_manager db_type = Inl (ValueError db_type)
     \<and> initialize E db_type = None
     \<and> run L E C use_playwright db_type urls =
         (case scrape_urls L E use_playwright urls of
            Inl e \<Rightarrow> Inl e
          | Inr results \<Rightarrow>
              Inr \<lparr>db_manager_after = None, outcomes = results,
                   file_export = snd (save_results C (db_time E) None results)\<rparr>)"
  using assms
  by (auto simp: create_manager_def initialize_def run_def save_results_def Let_def
      split: sum.splits)

theorem unsupported_tag_file_only_witness:
  "lower ''MySQL'' \<noteq> ''postgresql'' \<and> lower ''MySQL'' \<noteq> ''mongodb''
   \<and> create_manager ''MySQL'' = Inl (ValueError ''MySQL'')
   \<and> initialize example_environment ''MySQL'' = None
   \<and> run example_library example_environment example_config False ''MySQL''
        [''https://example.test/'']
      = Inr \<lparr>db_manager_after = None,
             outcomes = [\<lparr>success = False, products = [], total_count = 0,
                          page_url = ''https://example.test/'', result_scraped_at = 100,
                          error_message = Some ''connection refused''\<rparr>],
             file_export = None\<rparr>"
proof -
  have 1: "lower ''MySQL'' \<noteq> ''postgresql''" by code_simp
  have 2: "lower ''MySQL'' \<noteq> ''mongodb''" by code_simp
  have 3: "scrape_urls example_library example_environment False [''https://example.test/'']
      = Inr [\<lparr>success = False, products = [], total_count = 0,
                page_url = ''https://example.test/'', result_scraped_at = 100,
                error_message = Some ''connection refused''\<rparr>]"
    by code_simp
  have 4: "snd (save_results example_config (db_time example_environment) None
        [\<lparr>success = False, products = [], total_count = 0,
          page_url = ''https://example.test/'', result_scraped_at = 100,
          error_message = Some ''connection refused''\<rparr>]) = None"
    by (simp add: save_results_def)
  from unsupported_tag_file_only [OF 1 2, of example_environment example_library
      example_config False "[''https://example.test/'']"] 1 2 3 4
  show ?thesis by simp
qed

text \<open>A run with the tag \<open>sqlite\<close>: the factory raises, and the run still fetches the
  page, extracts its record and exports it to the file.\<close>

theorem sqlite_run_continues:
  "create_manager ''sqlite'' = Inl (ValueError ''sqlite'')
   \<and> run example_library example_environment example_config True ''sqlite''
        [''https://example.test/'']
      = Inr \<lparr>db_manager_after = None,
             outcomes = [\<lparr>success = True, products = [widget], total_count = 1,
                          page_url = ''https://example.test/'', result_scraped_at = 100,
                          error_message = None\<rparr>],
             file_export = Some (''json'', [widget])\<rparr>"
  by code_simp

subsection \<open>A URL that the result type rejects\<close>

lemma scrape_page_invalid:
  "http_url L u = None \<Longrightarrow> scrape_page L fetched clock now u = Inl ValidationError"
  by (simp add: scrape_page_def new_ScrapingResult_def split: sum.splits)

lemma scrape_page_valid:
  "http_url L u = Some w \<Longrightarrow> scrape_page L fetched clock now u =
     (case fetched of
        Inl e \<Rightarrow>
          Inr \<lparr>success = False, products = [], total_count = 0, page_url = w,
               result_scraped_at = now, error_message = Some (str_error e)\<rparr>
      | Inr soup \<Rightarrow>
          Inr \<lparr>success = True, products = parse_products L clock soup u,
               total_count = length (parse_products L clock soup u), page_url = w,
               result_scraped_at = now, error_message = None\<rparr>)"
  by (simp add: scrape_page_def new_ScrapingResult_def split: sum.splits)

text \<open>For URLs that the result type accepts, the loop returns one result per URL, in
  order, a failed fetch giving a failed result with the exception's text.\<close>

lemma scrape_multiple_pages_valid:
  assumes "\<forall>u\<in>set urls. http_url L u \<noteq> None"
  shows "scrape_multiple_pages L fetch item_clock page_clock j urls =
     Inr (map (\<lambda>(i, u).
            (case fetch i u of
               Inl e \<Rightarrow>
                 \<lparr>success = False, products = [], total_count = 0,
                  page_url = the (http_url L u),
                  result_scraped_at = page_clock i, error_message = Some (str_error e)\<rparr>
             | Inr soup \<Rightarrow>
                 \<lparr>success = True, products = parse_products L (item_clock i) soup u,
                  total_count = length (parse_products L (item_clock i) soup u),
                  page_url = the (http_url L u),
                  result_scraped_at = page_clock i, error_message = None\<rparr>))
          (enumerate j urls))"
  using assms
  by (induction urls arbitrary: j) (auto simp: scrape_page_valid split: sum.splits)

text \<open>
  Claim C6 fails on a list that holds a URL which the \<open>HttpUrl\<close> type of
  \<open>ScrapingResult.page_url\<close> rejects.  For such a URL the failed result cannot be
  constructed either: the handler of \<open>scrape_page\<close> raises, the handler of the loop
  raises again, and \<open>scrape_multiple_pages\<close> ends with that exception instead of a list
  of results, whatever the other URLs are.
\<close>

theorem scrape_multiple_pages_aborts:
  assumes "http_url L u = None"
  shows "scrape_multiple_pages L fetch item_clock page_clock j (pre @ u # post)
     = Inl ValidationError"
proof (induction pre arbitrary: j)
  case Nil
  from assms show ?case by (simp add: scrape_page_invalid new_ScrapingResult_def)
next
  case (Cons a pre)
  show ?case
  proof (cases "http_url L a")
    case (Some w)
    with Cons show ?thesis by (simp add: scrape_page_valid split: sum.splits)
  next
    case None
    then show ?thesis by (simp add: scrape_page_invalid new_ScrapingResult_def)
  qed
qed

theorem scrape_multiple_pages_aborts_witness:
  "http_url example_library ''file:///tmp/page.html'' = None
   \<and> scrape_multiple_pages example_library (page_content example_environment)
        (item_time example_environment) (page_time example_environment) 0
        [''https://example.test/'', ''file:///tmp/page.html'', ''https://example.test/next'']
      = Inl ValidationError"
proof -
  have 1: "http_url example_library ''file:///tmp/page.html'' = None" by code_simp
  from scrape_multiple_pages_aborts [OF 1, of "page_content example_environment"
      "item_time example_environment" "page_time example_environment" 0
      "[''https://example.test/'']" "[''https://example.test/next'']"] 1
  show ?thesis by simp
qed

end
